theory Spec2Isabelle
  imports Complex_Main "HOL-Library.AList"
begin

section \<open>Values exchanged between the routes\<close>

text \<open>
  The routes pass untyped JavaScript values around (\<^verbatim>\<open>data: any\<close>), obtained from
  \<^verbatim>\<open>JSON.parse\<close>. They are modelled by the JSON value they were parsed from. An object is
  the list of its own properties in insertion order; a property read that finds nothing
  yields \<^verbatim>\<open>undefined\<close>, modelled by \<open>None\<close>.

  A string is the list of its UTF-16 code units, for strings whose code units are all
  below 256 (so \<open>char\<close> is one code unit). Numbers are the finite values JSON can denote.
\<close>

datatype json =
    JNull
  | JBool bool
  | JNum rat
  | JStr string
  | JArr "json list"
  | JObj "(string \<times> json) list"

datatype exn = TypeError

text \<open>JavaScript truthiness, as tested by \<^verbatim>\<open>!x\<close>, \<^verbatim>\<open>x && y\<close> and \<^verbatim>\<open>x || y\<close>.\<close>

fun truthy :: "json \<Rightarrow> bool" where
  "truthy JNull = False"
| "truthy (JBool b) = b"
| "truthy (JNum n) = (n \<noteq> 0)"
| "truthy (JStr s) = (s \<noteq> [])"
| "truthy (JArr xs) = True"
| "truthy (JObj kvs) = True"

fun truthyOpt :: "json option \<Rightarrow> bool" where
  "truthyOpt None = False"
| "truthyOpt (Some v) = truthy v"

text \<open>
  Reading one of the properties the routes read (\<^verbatim>\<open>title\<close>, \<^verbatim>\<open>chapters\<close>,
  \<^verbatim>\<open>results\<close>, \<^verbatim>\<open>img\<close>): on \<^verbatim>\<open>null\<close> it throws, on an object it is the own property,
  and on a primitive or an array there is no property of that name.
\<close>

fun getProp :: "json \<Rightarrow> string \<Rightarrow> exn + json option" where
  "getProp JNull k = Inl TypeError"
| "getProp (JObj kvs) k = Inr (map_of kvs k)"
| "getProp v k = Inr None"

fun isArray :: "json option \<Rightarrow> bool" where
  "isArray (Some (JArr xs)) = True"
| "isArray v = False"

fun arrayItems :: "json option \<Rightarrow> json list" where
  "arrayItems (Some (JArr xs)) = xs"
| "arrayItems v = []"

text \<open>\<^verbatim>\<open>String.prototype.trim\<close>: the white space and line terminators below code unit 256.\<close>

definition isWhiteSpace :: "char \<Rightarrow> bool" where
  "isWhiteSpace c \<longleftrightarrow> c \<in> set [CHR 0x09, CHR 0x0A, CHR 0x0B, CHR 0x0C, CHR 0x0D, CHR 0x20, CHR 0xA0]"

definition trim :: "string \<Rightarrow> string" where
  "trim s = rev (dropWhile isWhiteSpace (rev (dropWhile isWhiteSpace s)))"

text \<open>
  \<^verbatim>\<open>v.trim()\<close> on a truthy value: only a string has the method; on anything else
  \<^verbatim>\<open>v.trim\<close> is not a function and the call throws.
\<close>

fun callTrim :: "json option \<Rightarrow> exn + string" where
  "callTrim (Some (JStr s)) = Inr (trim s)"
| "callTrim v = Inl TypeError"

section \<open>Response validators\<close>

text \<open>
  \<^verbatim>\<open>
  const isValidManhwaInfo = (data: any): boolean => {
    if (!data) return false;
    if (!data.title || data.title.trim() === '') return false;
    if (!data.chapters || !Array.isArray(data.chapters)) return false;
    if (data.chapters.length === 0) return false;
    return true;
  };
  \<close>
\<close>

definition isValidManhwaInfo :: "json \<Rightarrow> exn + bool" where
  "isValidManhwaInfo data =
    (if \<not> truthy data then Inr False
     else
       (case getProp data ''title'' of
          Inl e \<Rightarrow> Inl e
        | Inr title \<Rightarrow>
            (if \<not> truthyOpt title then Inr False
             else
               (case callTrim title of
                  Inl e \<Rightarrow> Inl e
                | Inr trimmed \<Rightarrow>
                    (if trimmed = [] then Inr False
                     else
                       (case getProp data ''chapters'' of
                          Inl e \<Rightarrow> Inl e
                        | Inr chapters \<Rightarrow>
                            (if \<not> truthyOpt chapters \<or> \<not> isArray chapters then Inr False
                             else if length (arrayItems chapters) = 0 then Inr False
                             else Inr True)))))))"

text \<open>
  \<^verbatim>\<open>
  const isValidSearchResults = (data: any): boolean => {
    if (!data) return false;
    if (!data.results || !Array.isArray(data.results)) return false;
    return data.results.length > 0;
  };
  \<close>
  No step of it can throw: \<^verbatim>\<open>data\<close> is truthy when its property is read.
\<close>

definition isValidSearchResults :: "json \<Rightarrow> bool" where
  "isValidSearchResults data =
    (if \<not> truthy data then False
     else
       (case getProp data ''results'' of
          Inl e \<Rightarrow> False
        | Inr results \<Rightarrow>
            (if \<not> truthyOpt results \<or> \<not> isArray results then False
             else length (arrayItems results) > 0)))"

text \<open>
  \<^verbatim>\<open>
  const isValidChapterPages = (data: any): boolean => {
    if (!data || !Array.isArray(data)) return false;
    if (data.length === 0) return false;
    return data.some((page: any) => page.img && page.img.trim() !== '');
  };
  \<close>
  The callback's value is used for its truthiness; \<^verbatim>\<open>some\<close> stops at the first page
  where it is truthy, and an exception of the callback ends the whole call.
\<close>

definition pageHasImage :: "json \<Rightarrow> exn + bool" where
  "pageHasImage page =
    (case getProp page ''img'' of
       Inl e \<Rightarrow> Inl e
     | Inr img \<Rightarrow>
         (if \<not> truthyOpt img then Inr False
          else
            (case callTrim img of
               Inl e \<Rightarrow> Inl e
             | Inr trimmed \<Rightarrow> Inr (trimmed \<noteq> []))))"

fun some :: "(json \<Rightarrow> exn + bool) \<Rightarrow> json list \<Rightarrow> exn + bool" where
  "some f [] = Inr False"
| "some f (x # xs) =
    (case f x of
       Inl e \<Rightarrow> Inl e
     | Inr True \<Rightarrow> Inr True
     | Inr False \<Rightarrow> some f xs)"

definition isValidChapterPages :: "json \<Rightarrow> exn + bool" where
  "isValidChapterPages data =
    (if \<not> truthy data \<or> \<not> isArray (Some data) then Inr False
     else if length (arrayItems (Some data)) = 0 then Inr False
     else some pageHasImage (arrayItems (Some data)))"

text \<open>
  A page as the adapters produce it: an object whose \<^verbatim>\<open>img\<close>, when present, is a string.
\<close>

definition pageShaped :: "json \<Rightarrow> bool" where
  "pageShaped page =
    (case page of
       JObj kvs \<Rightarrow> (case map_of kvs ''img'' of None \<Rightarrow> True | Some (JStr s) \<Rightarrow> True | Some v \<Rightarrow> False)
     | v \<Rightarrow> False)"

definition pageImage :: "json \<Rightarrow> string" where
  "pageImage page =
    (case page of
       JObj kvs \<Rightarrow> (case map_of kvs ''img'' of Some (JStr s) \<Rightarrow> s | v \<Rightarrow> [])
     | v \<Rightarrow> [])"

section \<open>Strings built by the routes\<close>

text \<open>Decimal rendering of a number inside a template literal.\<close>

definition digitChar :: "nat \<Rightarrow> char" where
  "digitChar d = ''0123456789'' ! d"

fun showNat :: "nat \<Rightarrow> string" where
  "showNat n = (if n < 10 then [digitChar n] else showNat (n div 10) @ [digitChar (n mod 10)])"

definition showInt :: "int \<Rightarrow> string" where
  "showInt i = (if i < 0 then ''-'' @ showNat (nat (- i)) else showNat (nat i))"

text \<open>
  \<^verbatim>\<open>encodeURIComponent\<close>: the unreserved characters stay, every other code unit is
  written as the percent-escaped bytes of its UTF-8 encoding (one byte below 128, two bytes
  from 128 to 255).
\<close>

definition uriUnreserved :: "char \<Rightarrow> bool" where
  "uriUnreserved c =
    (let n = (of_char c :: nat) in
       (65 \<le> n \<and> n \<le> 90) \<or> (97 \<le> n \<and> n \<le> 122) \<or> (48 \<le> n \<and> n \<le> 57)
       \<or> c \<in> set ''-_.!~*()'' \<or> c = CHR 0x27)"

definition hexDigit :: "nat \<Rightarrow> char" where
  "hexDigit d = ''0123456789ABCDEF'' ! d"

definition percentByte :: "nat \<Rightarrow> string" where
  "percentByte b = [CHR ''%'', hexDigit (b div 16), hexDigit (b mod 16)]"

definition encodeUnit :: "char \<Rightarrow> string" where
  "encodeUnit c =
    (let n = (of_char c :: nat) in
       if uriUnreserved c then [c]
       else if n < 128 then percentByte n
       else percentByte (192 + n div 64) @ percentByte (128 + n mod 64))"

definition encodeURIComponent :: "string \<Rightarrow> string" where
  "encodeURIComponent s = concat (map encodeUnit s)"

section \<open>Unified provider routes\<close>

text \<open>
  \<^verbatim>\<open>
  const PROVIDERS: ProviderConfig[] = [
    { name: 'manhuaplus', baseUrl: '/manhwa/manhuaplus', priority: 1 },
    { name: 'manhuaus', baseUrl: '/manhwa/manhuaus', priority: 2 },
  ];
  \<close>
\<close>

record ProviderConfig =
  name :: string
  baseUrl :: string
  priority :: int

definition PROVIDERS :: "ProviderConfig list" where
  "PROVIDERS =
    [\<lparr>name = ''manhuaplus'', baseUrl = ''/manhwa/manhuaplus'', priority = 1\<rparr>,
     \<lparr>name = ''manhuaus'', baseUrl = ''/manhwa/manhuaus'', priority = 2\<rparr>]"

text \<open>
  What the routes call but do not define is a parameter of the model: the answer of
  \<^verbatim>\<open>fastify.inject\<close> to a GET of a URL (a response with its status code and payload, or
  an exception with its message), \<^verbatim>\<open>JSON.parse\<close> (a value, or the message of the
  exception), the serialisation of \<^verbatim>\<open>URLSearchParams\<close>, and \<^verbatim>\<open>parseInt\<close> (an integer,
  or \<open>None\<close> for \<^verbatim>\<open>NaN\<close>). A reply is modelled by the JSON text sent, where
  \<^verbatim>\<open>NaN\<close> is written \<^verbatim>\<open>null\<close>.
\<close>

datatype injected = Responded nat string | InjectFailed string

record runtime =
  inject :: "string \<Rightarrow> injected"
  JSON_parse :: "string \<Rightarrow> string + json"
  URLSearchParams_toString :: "(string \<times> string) list \<Rightarrow> string"
  parseInt :: "string \<Rightarrow> int option"

definition numberJson :: "int option \<Rightarrow> json" where
  "numberJson v = (case v of None \<Rightarrow> JNull | Some n \<Rightarrow> JNum (of_int n))"

text \<open>
  \<^verbatim>\<open>
  const fetchFromProvider = async (provider, endpoint, params = {}) => {
    const queryString = new URLSearchParams(params).toString();
    const url = `/manhwa/${provider}${endpoint}${queryString ? `?${queryString}` : ''}`;
    try {
      const response = await fastify.inject({ method: 'GET', url });
      if (response.statusCode === 200) {
        const data = JSON.parse(response.payload);
        return { success: true, data, provider };
      }
      return { success: false, error: `Status ${response.statusCode}`, provider };
    } catch (error: any) {
      return { success: false, error: error.message, provider };
    }
  };
  \<close>
  It returns \<^verbatim>\<open>{ success: true, data, provider }\<close> or
  \<^verbatim>\<open>{ success: false, error, provider }\<close> and never throws: what \<^verbatim>\<open>inject\<close> and
  \<^verbatim>\<open>JSON.parse\<close> throw is caught inside.
\<close>

datatype fetchResult = Success json | Failure string

definition fetchFromProvider ::
  "runtime \<Rightarrow> string \<Rightarrow> string \<Rightarrow> (string \<times> string) list \<Rightarrow> fetchResult" where
  "fetchFromProvider rt provider endpoint params =
    (let queryString = URLSearchParams_toString rt params;
         url = ''/manhwa/'' @ provider @ endpoint
                 @ (if queryString \<noteq> [] then ''?'' @ queryString else [])
     in case inject rt url of
          InjectFailed message \<Rightarrow> Failure message
        | Responded statusCode payload \<Rightarrow>
            if statusCode = 200 then
              (case JSON_parse rt payload of
                 Inl message \<Rightarrow> Failure message
               | Inr data \<Rightarrow> Success data)
            else Failure (''Status '' @ showNat statusCode))"

text \<open>
  The own enumerable properties that an object spread \<^verbatim>\<open>{...v}\<close> copies, and the
  property written after the spread (\<open>AList.update\<close>: an existing key keeps its place and
  takes the new value, a new key is added).
\<close>

fun ownProperties :: "json \<Rightarrow> (string \<times> json) list" where
  "ownProperties (JObj kvs) = kvs"
| "ownProperties (JArr xs) = zip (map showNat [0..<length xs]) xs"
| "ownProperties (JStr s) = zip (map showNat [0..<length s]) (map (\<lambda>c. JStr [c]) s)"
| "ownProperties v = []"

datatype reply = Reply nat json

fun status :: "reply \<Rightarrow> nat" where
  "status (Reply code payload) = code"

fun body :: "reply \<Rightarrow> json" where
  "body (Reply code payload) = payload"

fun field :: "json \<Rightarrow> string \<Rightarrow> json option" where
  "field (JObj kvs) k = map_of kvs k"
| "field v k = None"

text \<open>
  Every call of \<^verbatim>\<open>fetchFromProvider\<close> is recorded, in order, with the provider asked and
  what came back: the trace is how the model shows which providers a request invoked.
\<close>

type_synonym trace = "(string \<times> fetchResult) list"

text \<open>
  The provider loop of \<^verbatim>\<open>/info\<close> and the 404 after it:
  \<^verbatim>\<open>
  for (const provider of PROVIDERS) {
    const result = await fetchFromProvider(provider.name, '/info', { id });
    if (result.success && isValidManhwaInfo(result.data)) {
      return reply.status(200).send({
        ...result.data,
        provider: provider.name,
        _fallback: provider.priority > 1,
      });
    } else {
      const errorMsg = result.success ? `Invalid data (no chapters or title)` : result.error;
      errors.push(`${provider.name}: ${errorMsg}`);
    }
  }
  return reply.status(404).send({
    message: 'Manhwa not found on any provider',
    errors,
    triedProviders: PROVIDERS.map((p) => p.name),
  });
  \<close>
  An exception of the validator leaves the handler (\<open>Inl\<close>).
\<close>

fun infoLoop ::
  "runtime \<Rightarrow> string \<Rightarrow> ProviderConfig list \<Rightarrow> string list \<Rightarrow> trace \<Rightarrow> (exn + reply) \<times> trace" where
  "infoLoop rt ident [] errors tr =
    (Inr (Reply 404 (JObj
       [(''message'', JStr ''Manhwa not found on any provider''),
        (''errors'', JArr (map JStr errors)),
        (''triedProviders'', JArr (map (\<lambda>p. JStr (name p)) PROVIDERS))])), tr)"
| "infoLoop rt ident (provider # rest) errors tr =
    (let result = fetchFromProvider rt (name provider) ''/info'' [(''id'', ident)];
         tr' = tr @ [(name provider, result)]
     in case result of
          Failure message \<Rightarrow>
            infoLoop rt ident rest (errors @ [name provider @ '': '' @ message]) tr'
        | Success data \<Rightarrow>
            (case isValidManhwaInfo data of
               Inl e \<Rightarrow> (Inl e, tr')
             | Inr True \<Rightarrow>
                 (Inr (Reply 200 (JObj
                    (AList.update ''_fallback'' (JBool (priority provider > 1))
                      (AList.update ''provider'' (JStr (name provider))
                        (ownProperties data))))), tr')
             | Inr False \<Rightarrow>
                 infoLoop rt ident rest
                   (errors @ [name provider @ '': '' @ ''Invalid data (no chapters or title)'']) tr'))"

text \<open>
  The handler: \<^verbatim>\<open>if (!id) return reply.status(400).send({ message: 'id is required' })\<close>,
  then the loop. The query parameter is absent (\<open>None\<close>) or a string.
\<close>

definition infoHandler :: "runtime \<Rightarrow> string option \<Rightarrow> (exn + reply) \<times> trace" where
  "infoHandler rt idParam =
    (case idParam of
       None \<Rightarrow> (Inr (Reply 400 (JObj [(''message'', JStr ''id is required'')])), [])
     | Some ident \<Rightarrow>
         if ident = [] then (Inr (Reply 400 (JObj [(''message'', JStr ''id is required'')])), [])
         else infoLoop rt ident PROVIDERS [] [])"

text \<open>
  The provider loop shared, word for word, by \<^verbatim>\<open>/search\<close>, \<^verbatim>\<open>/latest\<close>,
  \<^verbatim>\<open>/advanced-search\<close> and \<^verbatim>\<open>/genre/:slug\<close> (only the endpoint and its parameters
  differ):
  \<^verbatim>\<open>
  for (const provider of PROVIDERS) {
    const result = await fetchFromProvider(provider.name, endpoint, params);
    if (result.success && isValidSearchResults(result.data)) {
      const resultsWithProvider = result.data.results.map((item: any) => ({
        ...item,
        provider: provider.name,
      }));
      return reply.status(200).send({
        ...result.data,
        results: resultsWithProvider,
        provider: provider.name,
      });
    }
  }
  \<close>
  \<open>None\<close> is the loop running out of providers.
\<close>

fun resultsLoop ::
  "runtime \<Rightarrow> string \<Rightarrow> (string \<times> string) list \<Rightarrow> ProviderConfig list \<Rightarrow> trace
     \<Rightarrow> reply option \<times> trace" where
  "resultsLoop rt endpoint params [] tr = (None, tr)"
| "resultsLoop rt endpoint params (provider # rest) tr =
    (let result = fetchFromProvider rt (name provider) endpoint params;
         tr' = tr @ [(name provider, result)]
     in case result of
          Failure message \<Rightarrow> resultsLoop rt endpoint params rest tr'
        | Success data \<Rightarrow>
            if isValidSearchResults data then
              (let resultsWithProvider =
                     map (\<lambda>item. JObj (AList.update ''provider'' (JStr (name provider))
                                         (ownProperties item)))
                       (arrayItems (field data ''results''))
               in (Some (Reply 200 (JObj
                     (AList.update ''provider'' (JStr (name provider))
                       (AList.update ''results'' (JArr resultsWithProvider)
                         (ownProperties data))))), tr'))
            else resultsLoop rt endpoint params rest tr')"

text \<open>
  What each of the four handlers sends when its loop ran out:
  \<^verbatim>\<open>
  return reply.status(200).send({
    currentPage: parseInt(pageNum),
    hasNextPage: false,
    results: [],
    provider: PROVIDERS[0].name,
  });
  \<close>
\<close>

definition emptyResults :: "runtime \<Rightarrow> string \<Rightarrow> reply" where
  "emptyResults rt pageNum =
    Reply 200 (JObj
      [(''currentPage'', numberJson (parseInt rt pageNum)),
       (''hasNextPage'', JBool False),
       (''results'', JArr []),
       (''provider'', JStr (name (PROVIDERS ! 0)))])"

text \<open>\<^verbatim>\<open>page || '1'\<close> on an optional query parameter.\<close>

definition orDefault :: "string option \<Rightarrow> string \<Rightarrow> string" where
  "orDefault v d = (case v of None \<Rightarrow> d | Some s \<Rightarrow> if s = [] then d else s)"

text \<open>
  The end of each of the four handlers: the reply of the loop if it made one, the empty page
  otherwise.
\<close>

definition finish :: "runtime \<Rightarrow> string \<Rightarrow> reply option \<times> trace \<Rightarrow> reply \<times> trace" where
  "finish rt pageNum r = (case fst r of Some rp \<Rightarrow> (rp, snd r) | None \<Rightarrow> (emptyResults rt pageNum, snd r))"

definition searchHandler :: "runtime \<Rightarrow> string option \<Rightarrow> string option \<Rightarrow> reply \<times> trace" where
  "searchHandler rt query page =
    (if orDefault query [] = [] then (Reply 400 (JObj [(''message'', JStr ''query is required'')]), [])
     else
       let pageNum = orDefault page ''1''
       in finish rt pageNum
            (resultsLoop rt (''/'' @ encodeURIComponent (orDefault query []))
               [(''page'', pageNum)] PROVIDERS []))"

definition latestHandler :: "runtime \<Rightarrow> string option \<Rightarrow> reply \<times> trace" where
  "latestHandler rt page =
    (let pageNum = orDefault page ''1''
     in finish rt pageNum (resultsLoop rt ''/latest'' [(''page'', pageNum)] PROVIDERS []))"

text \<open>
  \<^verbatim>\<open>/advanced-search\<close> forwards the parameters that are present and non-empty, in this
  order, and reports \<^verbatim>\<open>parseInt(params.page || '1')\<close>.
\<close>

definition optParam :: "string \<Rightarrow> string option \<Rightarrow> (string \<times> string) list" where
  "optParam k v = (if orDefault v [] = [] then [] else [(k, orDefault v [])])"

definition advancedSearchHandler ::
  "runtime \<Rightarrow> string option \<Rightarrow> string option \<Rightarrow> string option \<Rightarrow> string option \<Rightarrow> string option
     \<Rightarrow> reply \<times> trace" where
  "advancedSearchHandler rt query page statusParam sortParam genres =
    (let params = optParam ''query'' query @ optParam ''page'' page @ optParam ''status'' statusParam
                    @ optParam ''sort'' sortParam @ optParam ''genres'' genres
     in finish rt (orDefault page ''1'')
          (resultsLoop rt ''/advanced-search'' params PROVIDERS []))"

definition genreHandler :: "runtime \<Rightarrow> string \<Rightarrow> string option \<Rightarrow> reply \<times> trace" where
  "genreHandler rt slug page =
    (let pageNum = orDefault page ''1''
     in finish rt pageNum
          (resultsLoop rt (''/genre/'' @ encodeURIComponent slug) [(''page'', pageNum)] PROVIDERS []))"

section \<open>Transport: fetch with retry\<close>

text \<open>
  \<^verbatim>\<open>
  export async function fetchWithRetry(url, options?) {
    const maxRetries = options?.maxRetries || 3;
    const retryDelay = options?.retryDelay || 1000;
    const timeout = options?.timeout || 30000;
    let lastError: Error | null = null;
    for (let attempt = 1; attempt <= maxRetries; attempt++) {
      try {
        const client = createProxyClient({ timeout });
        const response = await client.get(url);
        return response.data;
      } catch (error: any) {
        lastError = error;
        if (attempt < maxRetries) {
          const delay = retryDelay * Math.pow(2, attempt - 1);
          await new Promise((resolve) => setTimeout(resolve, delay));
        }
      }
    }
    throw lastError || new Error(`Failed to fetch ${url} after ${maxRetries} attempts`);
  }
  \<close>
  The counts and delays are integers. What the \<open>k\<close>-th \<^verbatim>\<open>client.get\<close> does is a
  parameter: it returns the data or throws. The model logs each request made and each delay
  handed to \<^verbatim>\<open>setTimeout\<close>, in order.
\<close>

datatype fetchError = NetworkError string | HttpStatusError nat | Error string

datatype event = Attempt int | Wait int

record retryOptions =
  maxRetries :: "int option"
  retryDelay :: "int option"
  timeout :: "int option"

text \<open>\<^verbatim>\<open>options?.field || d\<close>: absent options, an absent field and 0 all give the default.\<close>

definition optionOr :: "retryOptions option \<Rightarrow> (retryOptions \<Rightarrow> int option) \<Rightarrow> int \<Rightarrow> int" where
  "optionOr options fld d =
    (case options of
       None \<Rightarrow> d
     | Some opts \<Rightarrow> (case fld opts of None \<Rightarrow> d | Some n \<Rightarrow> if n = 0 then d else n))"

function retryLoop ::
  "(int \<Rightarrow> fetchError + string) \<Rightarrow> int \<Rightarrow> int \<Rightarrow> int \<Rightarrow> fetchError option \<Rightarrow> event list
     \<Rightarrow> (fetchError option + string) \<times> event list" where
  "retryLoop get maxR delayR attempt lastError evs =
    (if attempt \<le> maxR then
       (case get attempt of
          Inr response \<Rightarrow> (Inr response, evs @ [Attempt attempt])
        | Inl error \<Rightarrow>
            if attempt < maxR then
              retryLoop get maxR delayR (attempt + 1) (Some error)
                (evs @ [Attempt attempt, Wait (delayR * 2 ^ nat (attempt - 1))])
            else
              retryLoop get maxR delayR (attempt + 1) (Some error) (evs @ [Attempt attempt]))
     else (Inl lastError, evs))"
  by pat_completeness auto
termination
  by (relation "measure (\<lambda>(get, maxR, delayR, attempt, lastError, evs). nat (maxR + 1 - attempt))") auto

declare retryLoop.simps [simp del]

definition fetchWithRetry ::
  "string \<Rightarrow> retryOptions option \<Rightarrow> (int \<Rightarrow> fetchError + string) \<Rightarrow> (fetchError + string) \<times> event list" where
  "fetchWithRetry url options get =
    (let maxR = optionOr options maxRetries 3;
         delayR = optionOr options retryDelay 1000;
         r = retryLoop get maxR delayR 1 None []
     in case fst r of
          Inr response \<Rightarrow> (Inr response, snd r)
        | Inl (Some lastError) \<Rightarrow> (Inl lastError, snd r)
        | Inl None \<Rightarrow>
            (Inl (Error (''Failed to fetch '' @ url @ '' after '' @ showInt maxR @ '' attempts'')),
             snd r))"

text \<open>The requests made, and the delays waited, in a log.\<close>

fun attempts :: "event list \<Rightarrow> int list" where
  "attempts [] = []"
| "attempts (Attempt k # es) = k # attempts es"
| "attempts (Wait d # es) = attempts es"

fun waits :: "event list \<Rightarrow> int list" where
  "waits [] = []"
| "waits (Attempt k # es) = waits es"
| "waits (Wait d # es) = d # waits es"

text \<open>
  The log of the attempts \<open>a\<close> to \<open>m\<close> of which all but the last failed: each
  failed attempt \<open>k\<close> is followed by the delay \<open>base * 2 ^ (k - 1)\<close>, and nothing
  follows the last.
\<close>

definition scheduleFrom :: "int \<Rightarrow> int \<Rightarrow> int \<Rightarrow> event list" where
  "scheduleFrom base a m =
    concat (map (\<lambda>k. [Attempt k, Wait (base * 2 ^ nat (k - 1))]) [a..m - 1]) @ [Attempt m]"

definition schedule :: "int \<Rightarrow> int \<Rightarrow> event list" where
  "schedule base m = scheduleFrom base 1 m"

text \<open>Two transports for examples: one that always times out, one that always answers 404.\<close>

definition alwaysTimeout :: "int \<Rightarrow> fetchError + string" where
  "alwaysTimeout k = Inl (NetworkError ''timeout of 30000ms exceeded'')"

definition alwaysNotFound :: "int \<Rightarrow> fetchError + string" where
  "alwaysNotFound k = Inl (HttpStatusError 404)"

section \<open>Headless render service\<close>

text \<open>
  \<^verbatim>\<open>
  public async scrapeDynamic(url: string, selector?: string, timeout: number = 20000) {
    const page = await this.getCleanPage();
    try {
      await page.setUserAgent('Mozilla/5.0 ...');
      await page.setViewport({ width: 1920, height: 1080 });
      await page.goto(url, { waitUntil: 'networkidle2', timeout });
      if (selector) {
        await page.waitForSelector(selector, { timeout: 15000 });
      }
      await new Promise((resolve) => setTimeout(resolve, 2000));
      const content = await page.content();
      return content;
    } finally {
      await page.close();
    }
  }
  \<close>
  What the browser does at each call is a parameter: \<open>None\<close> when the call succeeds, or
  the error it throws. The model logs the calls made on the page, in order.
\<close>

datatype pageError = TimeoutError string | BrowserError string

datatype pageAction =
    NewPage
  | SetUserAgent
  | SetViewport nat nat
  | Goto string string int
  | WaitForSelector string int
  | Settle int
  | Content
  | ClosePage

record browserWorld =
  launchResult :: "pageError option"
  newPageResult :: "pageError option"
  setUserAgentResult :: "pageError option"
  setViewportResult :: "pageError option"
  gotoResult :: "pageError option"
  waitForSelectorResult :: "pageError option"
  contentResult :: "pageError + string"
  closeResult :: "pageError option"

type_synonym 'a run = "(pageError + 'a) \<times> pageAction list"

text \<open>One awaited call: it is logged, and the rest runs only if it did not throw.\<close>

fun await :: "pageAction \<Rightarrow> pageError option \<Rightarrow> 'a run \<Rightarrow> 'a run" where
  "await a None rest = (fst rest, a # snd rest)"
| "await a (Some e) rest = (Inl e, [a])"

text \<open>
  \<^verbatim>\<open>getCleanPage\<close>: launch the browser if there is none (\<^verbatim>\<open>launch\<close> returns at once
  when there is one), then open a page. The flag is whether a browser exists.
\<close>

definition getCleanPage :: "browserWorld \<Rightarrow> bool \<Rightarrow> unit run" where
  "getCleanPage w browser =
    (case (if browser then None else launchResult w) of
       Some e \<Rightarrow> (Inl e, [])
     | None \<Rightarrow> await NewPage (newPageResult w) (Inr (), []))"

definition scrapeDynamicBody :: "browserWorld \<Rightarrow> string \<Rightarrow> string option \<Rightarrow> int \<Rightarrow> string run" where
  "scrapeDynamicBody w url selector timeoutMs =
    await SetUserAgent (setUserAgentResult w)
     (await (SetViewport 1920 1080) (setViewportResult w)
       (await (Goto url ''networkidle2'' timeoutMs) (gotoResult w)
         (let settleAndRead =
                (case contentResult w of
                   Inl e \<Rightarrow> (Inl e, [Settle 2000, Content])
                 | Inr content \<Rightarrow> (Inr content, [Settle 2000, Content]))
          in if orDefault selector [] \<noteq> [] then
               await (WaitForSelector (orDefault selector []) 15000) (waitForSelectorResult w)
                 settleAndRead
             else settleAndRead)))"

text \<open>
  \<^verbatim>\<open>finally { await page.close(); }\<close>: the page is closed whatever the body did; if
  closing throws, that error replaces the body's outcome.
\<close>

definition finallyClose :: "browserWorld \<Rightarrow> 'a run \<Rightarrow> 'a run" where
  "finallyClose w r =
    (case closeResult w of
       None \<Rightarrow> (fst r, snd r @ [ClosePage])
     | Some e \<Rightarrow> (Inl e, snd r @ [ClosePage]))"

definition scrapeDynamic ::
  "browserWorld \<Rightarrow> bool \<Rightarrow> string \<Rightarrow> string option \<Rightarrow> int option \<Rightarrow> string run" where
  "scrapeDynamic w browser url selector timeoutParam =
    (let timeoutMs = (case timeoutParam of None \<Rightarrow> 20000 | Some t \<Rightarrow> t);
         opened = getCleanPage w browser
     in case fst opened of
          Inl e \<Rightarrow> (Inl e, snd opened)
        | Inr u \<Rightarrow>
            (let r = finallyClose w (scrapeDynamicBody w url selector timeoutMs)
             in (fst r, snd opened @ snd r)))"

section \<open>TTL caches of the routes\<close>





















text \<open>
  The other routes of \<^verbatim>\<open>muCache\<close> and \<^verbatim>\<open>anilistCache\<close>. They read and write the cache by
  the same lines. The lines between the upstream call and the store, which shape the reply out
  of the upstream answer, are parameters of the model: functions of the values those lines
  read, giving the value assigned to \<^verbatim>\<open>data\<close> or the exception thrown on the way.
  \<^verbatim>\<open>popularCache\<close> of the Mgeko module is declared and never read or written.
\<close>














section \<open>Chapter lists of the adapters\<close>

text \<open>
  Mgeko \<^verbatim>\<open>/info\<close> collects the chapters from the all-chapters page, or from the main
  page when that page cannot be fetched, and sorts them:
  \<^verbatim>\<open>
  const chapters: any[] = [];
  const seenChapterNums = new Set<number>();
  $chapters('ul.chapter-list li').each((_, el) => {
    const href = link.attr('href');
    if (!href || !href.includes('/reader/en/')) return;
    const chapterId = href.replace('/reader/en/', '').replace(/\/$/, '');
    const chapterMatch = chapterId.match(/chapter[- ]?(\d+(?:\.\d+)?)/i);
    if (!chapterMatch) return;
    const chapterNum = parseFloat(chapterMatch[1]);
    if (chapterNum === 0 || seenChapterNums.has(chapterNum)) return;
    seenChapterNums.add(chapterNum);
    chapters.push({ id: chapterId, title: `Chapter ${chapterNum}`, chapterNumber: chapterNum,
                    releaseDate: relativeTime || datetime || null });
  });
  chapters.sort((a, b) => b.chapterNumber - a.chapterNumber);
  \<close>
  When the all-chapters page cannot be fetched the \<^verbatim>\<open>catch\<close> block runs a second
  callback, over the links \<^verbatim>\<open>a[href*="/reader/en/"][href*="chapter-"]\<close> of the main page:
  \<^verbatim>\<open>
  const href = $(el).attr('href');
  if (!href || !href.includes('/reader/en/')) return;
  const chapterId = href.replace('/reader/en/', '').replace(/\/$/, '');
  const chapterMatch = chapterId.match(/chapter[- ](\d+)/i);
  if (!chapterMatch) return;
  const chapterNum = parseInt(chapterMatch[1]);
  if (chapterNum === 0 || seenChapterNums.has(chapterNum)) return;
  seenChapterNums.add(chapterNum);
  chapters.push({ id: chapterId, title: `Chapter ${chapterNum}`, chapterNumber: chapterNum });
  \<close>
  It differs from the first in how the number is read (the pattern requires the separator
  and takes the integer digits, parsed with \<^verbatim>\<open>parseInt\<close>) and in the entry, which has no
  release date; the tests on the link, on the number 0 and on the set of seen numbers, which
  is the same set, are the same lines.
  An element of a page is modelled by what its callback reads from it: the chapter id
  (\<open>None\<close> when the element has no reader link), the number that the callback of its page
  parses out of the id (\<open>None\<close> when its pattern does not match; a non-negative finite
  number otherwise), and the two texts of the release date, which only the first callback
  reads. The flag of the model says which callback runs. How a number is printed in the
  title is a parameter.
\<close>

record chapterEl =
  elChapterId :: "string option"
  elChapterNum :: "rat option"
  elRelativeTime :: string
  elDatetime :: "string option"

record mgekoChapter =
  chapterId :: string
  chapterTitle :: string
  chapterNumber :: rat
  releaseDate :: "string option"

fun collectChapters ::
  "(rat \<Rightarrow> string) \<Rightarrow> bool \<Rightarrow> chapterEl list \<Rightarrow> mgekoChapter list \<times> rat set \<Rightarrow> mgekoChapter list \<times> rat set" where
  "collectChapters numberText dated [] state = state"
| "collectChapters numberText dated (el # els) (chapters, seenChapterNums) =
    (case elChapterId el of
       None \<Rightarrow> collectChapters numberText dated els (chapters, seenChapterNums)
     | Some ident \<Rightarrow>
         (case elChapterNum el of
            None \<Rightarrow> collectChapters numberText dated els (chapters, seenChapterNums)
          | Some chapterNum \<Rightarrow>
              if chapterNum = 0 \<or> chapterNum \<in> seenChapterNums then
                collectChapters numberText dated els (chapters, seenChapterNums)
              else
                collectChapters numberText dated els
                  (chapters @
                     [\<lparr>chapterId = ident,
                       chapterTitle = ''Chapter '' @ numberText chapterNum,
                       chapterNumber = chapterNum,
                       releaseDate =
                         (if \<not> dated then None
                          else if elRelativeTime el \<noteq> [] then Some (elRelativeTime el)
                          else if orDefault (elDatetime el) [] \<noteq> [] then elDatetime el
                          else None)\<rparr>],
                   insert chapterNum seenChapterNums)))"

text \<open>
  \<^verbatim>\<open>Array.prototype.sort\<close> with a comparator is a stable sort: \<open>x\<close> is placed before
  the first later element \<open>y\<close> with \<open>cmp x y \<le> 0\<close>.
\<close>

fun insertBy :: "('a \<Rightarrow> 'a \<Rightarrow> rat) \<Rightarrow> 'a \<Rightarrow> 'a list \<Rightarrow> 'a list" where
  "insertBy cmp x [] = [x]"
| "insertBy cmp x (y # ys) = (if cmp x y \<le> 0 then x # y # ys else y # insertBy cmp x ys)"

definition sortBy :: "('a \<Rightarrow> 'a \<Rightarrow> rat) \<Rightarrow> 'a list \<Rightarrow> 'a list" where
  "sortBy cmp xs = foldr (insertBy cmp) xs []"

definition mgekoInfoChapters ::
  "(rat \<Rightarrow> string) \<Rightarrow> chapterEl list option \<Rightarrow> chapterEl list \<Rightarrow> mgekoChapter list" where
  "mgekoInfoChapters numberText allChaptersPage mainPage =
    sortBy (\<lambda>a b. chapterNumber b - chapterNumber a)
      (fst (collectChapters numberText (allChaptersPage \<noteq> None)
              (case allChaptersPage of Some els \<Rightarrow> els | None \<Rightarrow> mainPage) ([], {})))"

text \<open>
  MangaDex \<^verbatim>\<open>/info\<close> keeps the order in which the API returned the chapters:
  \<^verbatim>\<open>
  const chapters: any[] = [];
  const seenChapters = new Set();
  for (const chapter of chaptersResponse.data.data) {
    const chapterNum = chapter.attributes.chapter;
    if (!chapterNum || seenChapters.has(chapterNum)) continue;
    seenChapters.add(chapterNum);
    chapters.push({
      id: chapter.id,
      title: chapter.attributes.title || `Chapter ${chapterNum}`,
      releaseDate: chapter.attributes.publishAt || new Date().toISOString(),
    });
  }
  \<close>
  The chapter number of the API is a string or \<^verbatim>\<open>null\<close>.
\<close>

record mdChapter =
  mdId :: string
  mdChapterNum :: "string option"
  mdTitle :: "string option"
  mdPublishAt :: "string option"

record mdChapterRef =
  refId :: string
  refTitle :: string
  refReleaseDate :: string

fun mdCollect ::
  "string \<Rightarrow> mdChapter list \<Rightarrow> mdChapterRef list \<times> string set \<Rightarrow> mdChapterRef list \<times> string set" where
  "mdCollect nowIso [] state = state"
| "mdCollect nowIso (chapter # rest) (chapters, seenChapters) =
    (let chapterNum = orDefault (mdChapterNum chapter) []
     in if chapterNum = [] \<or> chapterNum \<in> seenChapters then
          mdCollect nowIso rest (chapters, seenChapters)
        else
          mdCollect nowIso rest
            (chapters @
               [\<lparr>refId = mdId chapter,
                 refTitle = orDefault (mdTitle chapter) (''Chapter '' @ chapterNum),
                 refReleaseDate = orDefault (mdPublishAt chapter) nowIso\<rparr>],
             insert chapterNum seenChapters))"

definition mangadexInfoChapters :: "string \<Rightarrow> mdChapter list \<Rightarrow> mdChapterRef list" where
  "mangadexInfoChapters nowIso fetchedChapters = fst (mdCollect nowIso fetchedChapters ([], {}))"

text \<open>The list without the entries that repeat an earlier key.\<close>

fun firstOccurrences :: "('a \<Rightarrow> 'k) \<Rightarrow> 'k set \<Rightarrow> 'a list \<Rightarrow> 'a list" where
  "firstOccurrences key seen [] = []"
| "firstOccurrences key seen (x # xs) =
    (if key x \<in> seen then firstOccurrences key seen xs
     else x # firstOccurrences key (insert (key x) seen) xs)"

section \<open>Stream relay: playlist rewriting\<close>

fun startsWith :: "string \<Rightarrow> string \<Rightarrow> bool" where
  "startsWith s [] = True"
| "startsWith [] (p # ps) = False"
| "startsWith (c # cs) (p # ps) = (c = p \<and> startsWith cs ps)"

fun includesStr :: "string \<Rightarrow> string \<Rightarrow> bool" where
  "includesStr [] pat = (pat = [])"
| "includesStr (c # cs) pat = (startsWith (c # cs) pat \<or> includesStr cs pat)"

text \<open>\<^verbatim>\<open>s.lastIndexOf(c)\<close>: the index of the last occurrence, or -1.\<close>

definition lastIndexOf :: "string \<Rightarrow> char \<Rightarrow> int" where
  "lastIndexOf s c =
    (if c \<in> set s then int (length s) - 1 - int (length (takeWhile (\<lambda>x. x \<noteq> c) (rev s)))
     else - 1)"

fun splitLines :: "string \<Rightarrow> string list" where
  "splitLines [] = [[]]"
| "splitLines (c # cs) =
    (if c = CHR 0x0A then [] # splitLines cs
     else (case splitLines cs of [] \<Rightarrow> [[c]] | l # ls \<Rightarrow> (c # l) # ls))"

fun joinLines :: "string list \<Rightarrow> string" where
  "joinLines [] = []"
| "joinLines [l] = l"
| "joinLines (l # ls) = l @ [CHR 0x0A] @ joinLines ls"

text \<open>
  \<^verbatim>\<open>content.replace(/^([^#\n][^\n]*\.ts[^\n]*)$/gm, f)\<close>, and the same with
  \<^verbatim>\<open>\.m3u8\<close>. No match contains a line feed, so the text is rewritten piece by piece
  between line feeds. In a piece, a match can start where \<^verbatim>\<open>^\<close> holds (at the
  start of the piece, or after a carriage return, which is a line terminator too), on a
  character other than \<^verbatim>\<open>#\<close>, when the extension occurs later in the piece; being
  greedy, it then runs to the end of the piece, where \<^verbatim>\<open>$\<close> holds. The search is
  from left to right, and after a match it resumes behind it. The replacement is the value of
  the function, used as it is.
\<close>

fun rewritePiece :: "string \<Rightarrow> (string \<Rightarrow> string) \<Rightarrow> bool \<Rightarrow> string \<Rightarrow> string" where
  "rewritePiece ext f atLineStart [] = []"
| "rewritePiece ext f atLineStart (c # cs) =
    (if atLineStart \<and> c \<noteq> CHR ''#'' \<and> includesStr cs ext then f (c # cs)
     else c # rewritePiece ext f (c = CHR 0x0D) cs)"

definition replaceEntries :: "string \<Rightarrow> (string \<Rightarrow> string) \<Rightarrow> string \<Rightarrow> string" where
  "replaceEntries ext f content = joinLines (map (rewritePiece ext f True) (splitLines content))"

text \<open>
  \<^verbatim>\<open>
  if (url.includes('.m3u8')) {
    let content = response.data;
    const baseUrl = url.substring(0, url.lastIndexOf('/') + 1);
    content = content.replace(/^([^#\n][^\n]*\.m3u8[^\n]*)$/gm, (match: string) => {
      const absoluteUrl = match.startsWith('http') ? match : baseUrl + match;
      return `http://localhost:3000/proxy/stream?url=${encodeURIComponent(absoluteUrl)}${referer ? `&referer=${encodeURIComponent(referer)}` : ''}`;
    });
    content = content.replace(/^([^#\n][^\n]*\.ts[^\n]*)$/gm, (match: string) => { ... the same ... });
    return reply.send(content);
  }
  \<close>
\<close>

definition proxied :: "string \<Rightarrow> string option \<Rightarrow> string \<Rightarrow> string" where
  "proxied baseUrlOfFetch referer match =
    (let absoluteUrl = (if startsWith match ''http'' then match else baseUrlOfFetch @ match)
     in ''http://localhost:3000/proxy/stream?url='' @ encodeURIComponent absoluteUrl
          @ (if orDefault referer [] \<noteq> [] then ''&referer='' @ encodeURIComponent (orDefault referer [])
             else []))"

definition rewritePlaylist :: "string \<Rightarrow> string option \<Rightarrow> string \<Rightarrow> string" where
  "rewritePlaylist url referer content =
    (let baseUrlOfFetch = take (nat (lastIndexOf url CHR ''/'' + 1)) url;
         content1 = replaceEntries ''.m3u8'' (proxied baseUrlOfFetch referer) content
     in replaceEntries ''.ts'' (proxied baseUrlOfFetch referer) content1)"

text \<open>
  The route \<^verbatim>\<open>/stream\<close> around the rewriting:
  \<^verbatim>\<open>
  if (!url) { return reply.status(400).send({ error: 'URL parameter is required' }); }
  try {
    const response = await axios.get(url, {
      responseType: url.includes('.m3u8') ? 'text' : 'stream',
      headers: { ..., Referer: referer || 'https://hianime.to/',
                 Origin: referer ? new URL(referer).origin : 'https://hianime.to', ... },
      timeout: 30000,
    });
    ...
    if (url.includes('.m3u8')) { ... return reply.send(content); }
    ...
    reply.code(response.status);
    return reply.send(response.data);
  } catch (error: any) {
    if (error.response) {
      return reply.status(error.response.status).send({ error: 'Failed to fetch stream', ... });
    }
    return reply.status(500).send({ error: 'Internal proxy error', ... });
  }
  \<close>
  \<^verbatim>\<open>new URL(referer)\<close> throws on a referer that is no URL, before the request is made.
  Parameters: which strings parse as a URL, and the upstream, which answers with a status
  and a body, or fails with a response of some status, or fails without one.
\<close>

datatype upstream = Answered nat string | FailedWith nat | FailedWithout

datatype streamReply = SentPlaylist string | SentStream nat string | SentError nat string

definition streamHandler ::
  "(string \<Rightarrow> bool) \<Rightarrow> (string \<Rightarrow> string option \<Rightarrow> upstream) \<Rightarrow> string option \<Rightarrow> string option
     \<Rightarrow> streamReply" where
  "streamHandler parsesAsUrl axiosGet url referer =
    (if orDefault url [] = [] then SentError 400 ''URL parameter is required''
     else if orDefault referer [] \<noteq> [] \<and> \<not> parsesAsUrl (orDefault referer []) then
       SentError 500 ''Internal proxy error''
     else
       (case axiosGet (orDefault url []) referer of
          FailedWith code \<Rightarrow> SentError code ''Failed to fetch stream''
        | FailedWithout \<Rightarrow> SentError 500 ''Internal proxy error''
        | Answered code content \<Rightarrow>
            if includesStr (orDefault url []) ''.m3u8'' then
              SentPlaylist (rewritePlaylist (orDefault url []) referer content)
            else SentStream code content))"

section \<open>Notions used to state the properties of the unified routes\<close>

text \<open>
  The call the \<^verbatim>\<open>/info\<close> loop makes for a provider, and what it means for its result to
  fail: \<^verbatim>\<open>result.success && isValidManhwaInfo(result.data)\<close> is false (and did not throw).
\<close>

definition infoCall :: "runtime \<Rightarrow> string \<Rightarrow> ProviderConfig \<Rightarrow> fetchResult" where
  "infoCall rt ident p = fetchFromProvider rt (name p) ''/info'' [(''id'', ident)]"

definition failsInfo :: "fetchResult \<Rightarrow> bool" where
  "failsInfo r = (case r of Success d \<Rightarrow> isValidManhwaInfo d = Inr False | Failure m \<Rightarrow> True)"

definition reasonText :: "fetchResult \<Rightarrow> string" where
  "reasonText r = (case r of Failure m \<Rightarrow> m | Success d \<Rightarrow> ''Invalid data (no chapters or title)'')"

definition failureReason :: "runtime \<Rightarrow> string \<Rightarrow> ProviderConfig \<Rightarrow> string" where
  "failureReason rt ident p = name p @ '': '' @ reasonText (infoCall rt ident p)"

text \<open>The calls the \<^verbatim>\<open>/info\<close> loop makes: it goes on after a provider only if that one failed.\<close>

fun infoTrace :: "runtime \<Rightarrow> string \<Rightarrow> ProviderConfig list \<Rightarrow> trace" where
  "infoTrace rt ident [] = []"
| "infoTrace rt ident (p # ps) =
    (name p, infoCall rt ident p)
      # (if failsInfo (infoCall rt ident p) then infoTrace rt ident ps else [])"

definition infoSuccess :: "ProviderConfig \<Rightarrow> json \<Rightarrow> reply" where
  "infoSuccess p d =
    Reply 200 (JObj (AList.update ''_fallback'' (JBool (priority p > 1))
                      (AList.update ''provider'' (JStr (name p)) (ownProperties d))))"

text \<open>\<^verbatim>\<open>result.success && isValidSearchResults(result.data)\<close>.\<close>

definition validResults :: "fetchResult \<Rightarrow> bool" where
  "validResults r = (case r of Success d \<Rightarrow> isValidSearchResults d | Failure m \<Rightarrow> False)"

text \<open>
  A small world to run the routes in: the first provider knows the series \<^verbatim>\<open>solo\<close> but
  has no chapters for it, the second has one chapter; to anything else the first provider
  answers with an empty page of results and the second with status 500.
\<close>

definition exampleRuntime :: runtime where
  "exampleRuntime =
    \<lparr>inject = (\<lambda>url.
        if url = ''/manhwa/manhuaplus/info?id=solo'' then Responded 200 ''solo without chapters''
        else if url = ''/manhwa/manhuaus/info?id=solo'' then Responded 200 ''solo with one chapter''
        else if startsWith url ''/manhwa/manhuaplus/'' then Responded 200 ''empty results''
        else Responded 500 []),
      JSON_parse = (\<lambda>payload.
        if payload = ''solo without chapters'' then
          Inr (JObj [(''title'', JStr ''Solo''), (''chapters'', JArr [])])
        else if payload = ''solo with one chapter'' then
          Inr (JObj [(''title'', JStr ''Solo''), (''chapters'', JArr [JObj [(''id'', JStr ''c1'')]])])
        else if payload = ''empty results'' then Inr (JObj [(''results'', JArr [])])
        else Inl ''Unexpected end of JSON input''),
      URLSearchParams_toString = (\<lambda>params. concat (map (\<lambda>kv. fst kv @ ''='' @ snd kv) params)),
      parseInt = (\<lambda>s. if s = ''1'' then Some 1 else None)\<rparr>"

definition exampleInfo :: json where
  "exampleInfo = JObj [(''title'', JStr ''Solo''), (''chapters'', JArr [JObj [(''id'', JStr ''c1'')]])]"

text \<open>
  Notions used to state the properties of \<^verbatim>\<open>scrapeDynamic\<close>: the page was opened when
  \<^verbatim>\<open>getCleanPage\<close> did not throw; the error that leaves the \<^verbatim>\<open>try\<close> block is replaced by
  the error of \<^verbatim>\<open>page.close()\<close> when that throws as well. The example world is a site whose
  navigation succeeds and whose marker never appears.
\<close>

definition selectorTimeoutWorld :: browserWorld where
  "selectorTimeoutWorld =
    \<lparr>launchResult = None, newPageResult = None, setUserAgentResult = None,
      setViewportResult = None, gotoResult = None,
      waitForSelectorResult = Some (TimeoutError ''Waiting for selector .chapter-list failed: 15000ms exceeded''),
      contentResult = Inr ''<html><body>loading</body></html>'',
      closeResult = None\<rparr>"

definition pageOpened :: "browserWorld \<Rightarrow> bool \<Rightarrow> bool" where
  "pageOpened w browser \<longleftrightarrow> (browser \<or> launchResult w = None) \<and> newPageResult w = None"

definition afterClose :: "browserWorld \<Rightarrow> pageError \<Rightarrow> pageError" where
  "afterClose w e = (case closeResult w of None \<Rightarrow> e | Some e' \<Rightarrow> e')"
























text \<open>
  Notions used to state the properties of the chapter lists: the elements of the page that
  the Mgeko callback does not skip at once (a reader link, a number, and the number not 0),
  the number of an element, and the entry made from an element; the same for the chapters of
  the MangaDex response. The examples are a page that lists chapter 5 twice, and a response
  with chapter 5 from two scan groups.
\<close>

definition usableEl :: "chapterEl \<Rightarrow> bool" where
  "usableEl el \<longleftrightarrow> elChapterId el \<noteq> None \<and> elChapterNum el \<noteq> None \<and> elChapterNum el \<noteq> Some 0"

definition toChapter :: "(rat \<Rightarrow> string) \<Rightarrow> bool \<Rightarrow> chapterEl \<Rightarrow> mgekoChapter" where
  "toChapter numberText dated el =
    \<lparr>chapterId = orDefault (elChapterId el) [],
      chapterTitle = ''Chapter '' @ numberText (case elChapterNum el of Some n \<Rightarrow> n | None \<Rightarrow> 0),
      chapterNumber = (case elChapterNum el of Some n \<Rightarrow> n | None \<Rightarrow> 0),
      releaseDate =
        (if \<not> dated then None
         else if elRelativeTime el \<noteq> [] then Some (elRelativeTime el)
         else if orDefault (elDatetime el) [] \<noteq> [] then elDatetime el
         else None)\<rparr>"

definition elNumber :: "chapterEl \<Rightarrow> rat" where
  "elNumber el = (case elChapterNum el of Some n \<Rightarrow> n | None \<Rightarrow> 0)"

definition mdNumber :: "mdChapter \<Rightarrow> string" where
  "mdNumber chapter = orDefault (mdChapterNum chapter) []"

definition toRef :: "string \<Rightarrow> mdChapter \<Rightarrow> mdChapterRef" where
  "toRef nowIso chapter =
    \<lparr>refId = mdId chapter,
      refTitle = orDefault (mdTitle chapter) (''Chapter '' @ mdNumber chapter),
      refReleaseDate = orDefault (mdPublishAt chapter) nowIso\<rparr>"

definition numbered :: "mdChapter \<Rightarrow> bool" where
  "numbered chapter \<longleftrightarrow> mdNumber chapter \<noteq> []"

definition exampleNumberText :: "rat \<Rightarrow> string" where
  "exampleNumberText n = (if n = 5 then ''5'' else if n = 6 then ''6'' else ''?'')"

definition exampleEls :: "chapterEl list" where
  "exampleEls =
    [\<lparr>elChapterId = Some ''solo-chapter-5'', elChapterNum = Some 5,
       elRelativeTime = ''3 days'', elDatetime = None\<rparr>,
     \<lparr>elChapterId = Some ''solo-chapter-5-hq'', elChapterNum = Some 5,
       elRelativeTime = ''2 days'', elDatetime = None\<rparr>,
     \<lparr>elChapterId = Some ''solo-chapter-6'', elChapterNum = Some 6,
       elRelativeTime = ''1 day'', elDatetime = None\<rparr>]"

definition exampleMdChapters :: "mdChapter list" where
  "exampleMdChapters =
    [\<lparr>mdId = ''group-a-5'', mdChapterNum = Some ''5'', mdTitle = None, mdPublishAt = Some ''2025-01-02''\<rparr>,
     \<lparr>mdId = ''group-b-5'', mdChapterNum = Some ''5'', mdTitle = None, mdPublishAt = Some ''2025-01-03''\<rparr>]"

text \<open>
  An upstream for the examples of the playlist rewriting: it serves the playlist of the
  specification's example, a master playlist of one entry, and one segment.
\<close>

definition exampleParsesAsUrl :: "string \<Rightarrow> bool" where
  "exampleParsesAsUrl s = startsWith s ''https://''"

definition exampleUpstream :: "string \<Rightarrow> string option \<Rightarrow> upstream" where
  "exampleUpstream url referer =
    (if url = ''https://cdn.example/show/index.m3u8?token=abc'' then
       Answered 200 ''#EXTM3U\<newline>#EXTINF:10,\<newline>segment001.ts\<newline>''
     else if url = ''https://cdn.tsunami.example/show/master.m3u8'' then
       Answered 200 ''low/index.m3u8''
     else if url = ''https://cdn.example/show/segment001.ts'' then
       Answered 206 ''segment-bytes''
     else FailedWith 404)"

section \<open>Properties of the validators\<close>

lemma trim_Nil [simp]: "trim [] = []"
  by (simp add: trim_def)

lemma isValidManhwaInfo_iff:
  "isValidManhwaInfo d = Inr True \<longleftrightarrow>
     (\<exists>kvs t cs. d = JObj kvs \<and> map_of kvs ''title'' = Some (JStr t) \<and> trim t \<noteq> []
        \<and> map_of kvs ''chapters'' = Some (JArr cs) \<and> cs \<noteq> [])"
proof (cases d)
  case (JObj kvs)
  show ?thesis
  proof (cases "map_of kvs ''title''")
    case None
    with JObj show ?thesis by (simp add: isValidManhwaInfo_def)
  next
    case (Some t)
    show ?thesis
    proof (cases t)
      case (JStr s)
      show ?thesis
      proof (cases "map_of kvs ''chapters''")
        case None
        with JObj Some JStr show ?thesis by (auto simp: isValidManhwaInfo_def)
      next
        case (Some c)
        with JObj \<open>map_of kvs ''title'' = Some t\<close> JStr show ?thesis
          by (cases c) (auto simp: isValidManhwaInfo_def)
      qed
    qed (use JObj Some in \<open>auto simp: isValidManhwaInfo_def\<close>)
  qed
qed (auto simp: isValidManhwaInfo_def)

lemma isValidSearchResults_iff:
  "isValidSearchResults d \<longleftrightarrow>
     (\<exists>kvs rs. d = JObj kvs \<and> map_of kvs ''results'' = Some (JArr rs) \<and> rs \<noteq> [])"
proof (cases d)
  case (JObj kvs)
  show ?thesis
  proof (cases "map_of kvs ''results''")
    case None
    with JObj show ?thesis by (simp add: isValidSearchResults_def)
  next
    case (Some r)
    with JObj show ?thesis by (cases r) (auto simp: isValidSearchResults_def)
  qed
qed (auto simp: isValidSearchResults_def)

lemma pageHasImage_shaped:
  "pageShaped p \<Longrightarrow> pageHasImage p = Inr (trim (pageImage p) \<noteq> [])"
  by (auto simp: pageShaped_def pageHasImage_def pageImage_def trim_def
      split: json.splits option.splits)

lemma some_shaped:
  "\<forall>p\<in>set ps. pageShaped p \<Longrightarrow>
     some pageHasImage ps = Inr (\<exists>p\<in>set ps. trim (pageImage p) \<noteq> [])"
  by (induction ps) (auto simp: pageHasImage_shaped split: bool.splits)

lemma isValidChapterPages_iff:
  assumes "\<forall>p\<in>set ps. pageShaped p"
  shows "isValidChapterPages (JArr ps) = Inr (ps \<noteq> [] \<and> (\<exists>p\<in>set ps. trim (pageImage p) \<noteq> []))"
  using some_shaped [OF assms] by (auto simp: isValidChapterPages_def)

lemma isValidChapterPages_array:
  "isValidChapterPages d = Inr True \<Longrightarrow> \<exists>ps. d = JArr ps"
  by (cases d) (auto simp: isValidChapterPages_def)

text \<open>
  Claim C3, as amended. The validators are functions of the candidate result alone.
  An info result is valid if and only if it is an object whose title is a string that is not
  blank (not empty after trimming white space) and whose chapters are a non-empty list; a
  search, latest or genre result is valid if and only if it is an object whose results are a
  non-empty list; a read result is valid only if it is a list, and a list of pages, each of
  them an object whose \<^verbatim>\<open>img\<close>, when present, is a string, is valid if and only if it is
  non-empty and at least one page has an image URL that is not blank.
\<close>

theorem validators_characterised:
  "(isValidManhwaInfo d = Inr True \<longleftrightarrow>
      (\<exists>kvs t cs. d = JObj kvs \<and> map_of kvs ''title'' = Some (JStr t) \<and> trim t \<noteq> []
         \<and> map_of kvs ''chapters'' = Some (JArr cs) \<and> cs \<noteq> []))
   \<and> (isValidSearchResults d \<longleftrightarrow>
      (\<exists>kvs rs. d = JObj kvs \<and> map_of kvs ''results'' = Some (JArr rs) \<and> rs \<noteq> []))
   \<and> (isValidChapterPages d = Inr True \<longrightarrow> (\<exists>ps. d = JArr ps))
   \<and> ((\<forall>p\<in>set ps. pageShaped p) \<longrightarrow>
        isValidChapterPages (JArr ps)
          = Inr (ps \<noteq> [] \<and> (\<exists>p\<in>set ps. trim (pageImage p) \<noteq> [])))"
  using isValidManhwaInfo_iff [of d] isValidSearchResults_iff [of d]
    isValidChapterPages_array [of d] isValidChapterPages_iff [of ps]
  by blast

text \<open>
  The boundary of the specification, through the theorem: the title \<^verbatim>\<open>Foo\<close> with no
  chapter is invalid and with one chapter valid; one page with an image URL is a valid read
  result.
\<close>

theorem validators_characterised_witness:
  "isValidManhwaInfo (JObj [(''title'', JStr ''Foo''), (''chapters'', JArr [])]) \<noteq> Inr True
   \<and> isValidManhwaInfo (JObj [(''title'', JStr ''Foo''), (''chapters'', JArr [JObj []])]) = Inr True
   \<and> isValidSearchResults (JObj [(''results'', JArr [JObj []])])
   \<and> pageShaped (JObj [(''page'', JNum 1), (''img'', JStr ''https://img.example/1.jpg'')])
   \<and> isValidChapterPages (JArr [JObj [(''page'', JNum 1), (''img'', JStr ''https://img.example/1.jpg'')]])
        = Inr True"
proof -
  have foo: "trim ''Foo'' \<noteq> []"
    by (simp add: trim_def isWhiteSpace_def)
  have shaped: "\<forall>p\<in>set [JObj [(''page'', JNum 1), (''img'', JStr ''https://img.example/1.jpg'')]]. pageShaped p"
    by (simp add: pageShaped_def)
  have img: "trim (pageImage (JObj [(''page'', JNum 1), (''img'', JStr ''https://img.example/1.jpg'')])) \<noteq> []"
    by (simp add: pageImage_def trim_def isWhiteSpace_def)
  from validators_characterised
         [of "JObj [(''title'', JStr ''Foo''), (''chapters'', JArr [])]" "[]"]
  have a: "isValidManhwaInfo (JObj [(''title'', JStr ''Foo''), (''chapters'', JArr [])]) \<noteq> Inr True"
    by simp
  from validators_characterised
         [of "JObj [(''title'', JStr ''Foo''), (''chapters'', JArr [JObj []])]" "[]"] foo
  have b: "isValidManhwaInfo (JObj [(''title'', JStr ''Foo''), (''chapters'', JArr [JObj []])]) = Inr True"
    by simp
  from validators_characterised [of "JObj [(''results'', JArr [JObj []])]" "[]"]
  have c: "isValidSearchResults (JObj [(''results'', JArr [JObj []])])"
    by simp
  from validators_characterised
         [of JNull "[JObj [(''page'', JNum 1), (''img'', JStr ''https://img.example/1.jpg'')]]"]
       shaped img
  have e: "isValidChapterPages (JArr [JObj [(''page'', JNum 1), (''img'', JStr ''https://img.example/1.jpg'')]])
        = Inr True"
    by simp
  from a b c shaped e show ?thesis by simp
qed

text \<open>
  Claim C3 as it was stated fails: a title of one space is not empty and there is a chapter,
  yet the info result is invalid; a page whose image URL is one space has a non-empty image
  URL, yet the read result is invalid.
\<close>

theorem validators_blank_counterexample:
  "'' '' \<noteq> [] \<and> [JObj []] \<noteq> []
   \<and> isValidManhwaInfo (JObj [(''title'', JStr '' ''), (''chapters'', JArr [JObj []])]) = Inr False
   \<and> isValidChapterPages (JArr [JObj [(''page'', JNum 1), (''img'', JStr '' '')]]) = Inr False"
  by (simp add: isValidManhwaInfo_def isValidChapterPages_def pageHasImage_def trim_def
      isWhiteSpace_def)

section \<open>Properties of the unified routes\<close>

lemma infoLoop_trace:
  "snd (infoLoop rt ident ps errors tr0) = tr0 @ infoTrace rt ident ps"
  by (induction ps arbitrary: errors tr0)
     (auto simp: infoCall_def failsInfo_def Let_def split: fetchResult.splits sum.splits bool.splits)

lemma infoLoop_exhausted:
  "\<forall>p\<in>set ps. failsInfo (infoCall rt ident p) \<Longrightarrow>
     infoLoop rt ident ps errors tr0 =
       (Inr (Reply 404 (JObj
          [(''message'', JStr ''Manhwa not found on any provider''),
           (''errors'', JArr (map JStr (errors @ map (failureReason rt ident) ps))),
           (''triedProviders'', JArr (map (\<lambda>p. JStr (name p)) PROVIDERS))])),
        tr0 @ map (\<lambda>p. (name p, infoCall rt ident p)) ps)"
proof (induction ps arbitrary: errors tr0)
  case Nil
  show ?case by simp
next
  case (Cons p ps)
  then have f: "failsInfo (infoCall rt ident p)" and rest: "\<forall>p\<in>set ps. failsInfo (infoCall rt ident p)"
    by simp_all
  show ?case
  proof (cases "infoCall rt ident p")
    case (Failure m)
    then show ?thesis
      using Cons.IH [OF rest] by (simp add: infoCall_def failureReason_def reasonText_def)
  next
    case (Success d)
    with f have "isValidManhwaInfo d = Inr False" by (simp add: failsInfo_def)
    with Success show ?thesis
      using Cons.IH [OF rest] by (simp add: infoCall_def failureReason_def reasonText_def)
  qed
qed

lemma infoTrace_pass:
  "k < length (infoTrace rt ident ps) \<Longrightarrow> snd (infoTrace rt ident ps ! k) = Success d \<Longrightarrow>
   isValidManhwaInfo d = Inr True \<Longrightarrow>
     length (infoTrace rt ident ps) = Suc k
     \<and> map fst (infoTrace rt ident ps) = map name (take (Suc k) ps)
     \<and> k < length ps
     \<and> fst (infoLoop rt ident ps errors tr0) = Inr (infoSuccess (ps ! k) d)"
proof (induction ps arbitrary: k errors tr0)
  case Nil
  then show ?case by simp
next
  case (Cons p ps)
  show ?case
  proof (cases k)
    case 0
    with Cons.prems have "infoCall rt ident p = Success d" by simp
    with Cons.prems 0 show ?thesis
      by (simp add: failsInfo_def infoCall_def infoSuccess_def)
  next
    case (Suc j)
    with Cons.prems have f: "failsInfo (infoCall rt ident p)"
      by (auto split: if_splits)
    with Cons.prems Suc have j: "j < length (infoTrace rt ident ps)"
      and s: "snd (infoTrace rt ident ps ! j) = Success d" by simp_all
    note ih = Cons.IH [OF j s Cons.prems(3)]
    from f ih Suc show ?thesis
      by (auto simp: failsInfo_def infoCall_def split: fetchResult.splits)
  qed
qed

lemma infoHandler_loop:
  "infoHandler rt idParam = (outcome, tr) \<Longrightarrow> tr \<noteq> [] \<Longrightarrow>
     \<exists>ident. idParam = Some ident \<and> ident \<noteq> [] \<and> infoLoop rt ident PROVIDERS [] [] = (outcome, tr)"
  by (auto simp: infoHandler_def split: option.splits if_splits)

text \<open>
  Claim C1. Whatever the request and whatever the providers answer: if the result that the
  \<open>k\<close>-th call of the \<^verbatim>\<open>/info\<close> handler brought back passes the info validator, then that
  call was the last one (no later provider is invoked, and the providers invoked are the first
  \<open>k + 1\<close> of the list, in its order), and the reply is that result sent with status 200, its
  \<^verbatim>\<open>provider\<close> field set to that provider's name and its \<^verbatim>\<open>_fallback\<close> flag true exactly when
  that provider's priority is greater than the first provider's.
\<close>

theorem info_first_valid_provider_wins:
  assumes run: "infoHandler rt idParam = (outcome, tr)"
    and k: "k < length tr"
    and res: "snd (tr ! k) = Success d"
    and valid: "isValidManhwaInfo d = Inr True"
  shows "length tr = Suc k
     \<and> map fst tr = map name (take (Suc k) PROVIDERS)
     \<and> outcome = Inr (Reply 200 (JObj
          (AList.update ''_fallback'' (JBool (priority (PROVIDERS ! k) > priority (PROVIDERS ! 0)))
            (AList.update ''provider'' (JStr (name (PROVIDERS ! k))) (ownProperties d)))))
     \<and> (\<forall>payload. outcome = Inr (Reply 200 (JObj payload)) \<longrightarrow>
           map_of payload ''provider'' = Some (JStr (name (PROVIDERS ! k)))
         \<and> map_of payload ''_fallback''
             = Some (JBool (priority (PROVIDERS ! k) > priority (PROVIDERS ! 0))))"
proof -
  from k have "tr \<noteq> []" by auto
  with run obtain ident where loop: "infoLoop rt ident PROVIDERS [] [] = (outcome, tr)"
    using infoHandler_loop by blast
  have tr: "tr = infoTrace rt ident PROVIDERS"
    using infoLoop_trace [of rt ident PROVIDERS "[]" "[]"] loop by simp
  from infoTrace_pass [of k rt ident PROVIDERS d "[]" "[]"] k res valid tr loop
  have len: "length tr = Suc k" and names: "map fst tr = map name (take (Suc k) PROVIDERS)"
    and kp: "k < length PROVIDERS" and out: "outcome = Inr (infoSuccess (PROVIDERS ! k) d)"
    by simp_all
  have first: "priority (PROVIDERS ! 0) = 1" by (simp add: PROVIDERS_def)
  have out': "outcome = Inr (Reply 200 (JObj
          (AList.update ''_fallback'' (JBool (priority (PROVIDERS ! k) > priority (PROVIDERS ! 0)))
            (AList.update ''provider'' (JStr (name (PROVIDERS ! k))) (ownProperties d)))))"
    using out first by (simp add: infoSuccess_def)
  show ?thesis
    using len names out' by (auto simp: update_conv')
qed

lemmas example_defs =
  exampleRuntime_def exampleInfo_def infoHandler_def PROVIDERS_def fetchFromProvider_def
  isValidManhwaInfo_def isValidSearchResults_def trim_def isWhiteSpace_def infoCall_def
  failsInfo_def validResults_def orDefault_def optParam_def encodeURIComponent_def
  encodeUnit_def uriUnreserved_def

text \<open>
  The fallback case of the specification, through the theorem: the first provider's result
  has no chapters, the second provider's result is valid; the reply carries the second
  provider's name and the flag is true.
\<close>

theorem info_first_valid_provider_wins_witness:
  "1 < length (snd (infoHandler exampleRuntime (Some ''solo'')))
   \<and> snd (snd (infoHandler exampleRuntime (Some ''solo'')) ! 1) = Success exampleInfo
   \<and> isValidManhwaInfo exampleInfo = Inr True
   \<and> map fst (snd (infoHandler exampleRuntime (Some ''solo''))) = [''manhuaplus'', ''manhuaus'']
   \<and> fst (infoHandler exampleRuntime (Some ''solo'')) =
        Inr (Reply 200 (JObj
          [(''title'', JStr ''Solo''), (''chapters'', JArr [JObj [(''id'', JStr ''c1'')]]),
           (''provider'', JStr ''manhuaus''), (''_fallback'', JBool True)]))"
proof -
  have run: "infoHandler exampleRuntime (Some ''solo'')
      = (fst (infoHandler exampleRuntime (Some ''solo'')), snd (infoHandler exampleRuntime (Some ''solo'')))"
    by simp
  have h1: "1 < length (snd (infoHandler exampleRuntime (Some ''solo'')))"
    by (simp add: example_defs)
  have h2: "snd (snd (infoHandler exampleRuntime (Some ''solo'')) ! 1) = Success exampleInfo"
    by (simp add: example_defs)
  have h3: "isValidManhwaInfo exampleInfo = Inr True"
    by (simp add: example_defs)
  from info_first_valid_provider_wins [OF run h1 h2 h3] h1 h2 h3 show ?thesis
    by (simp add: PROVIDERS_def exampleInfo_def)
qed

text \<open>
  Claim C2. For a request that names a series: if every provider's call either errors or
  brings back a result that fails validation, the \<^verbatim>\<open>/info\<close> handler returns (it does not
  throw) the not-found reply, status 404, carrying exactly one failure reason per provider,
  in the order of the provider list: two reasons, the first provider's first. Every provider
  was invoked, in that order.
\<close>

theorem info_exhaustion_not_found:
  assumes ident: "ident \<noteq> []"
    and fails: "\<forall>p\<in>set PROVIDERS. failsInfo (infoCall rt ident p)"
  shows "infoHandler rt (Some ident) =
      (Inr (Reply 404 (JObj
         [(''message'', JStr ''Manhwa not found on any provider''),
          (''errors'', JArr
             [JStr (''manhuaplus: '' @ reasonText (infoCall rt ident (PROVIDERS ! 0))),
              JStr (''manhuaus: '' @ reasonText (infoCall rt ident (PROVIDERS ! 1)))]),
          (''triedProviders'', JArr [JStr ''manhuaplus'', JStr ''manhuaus''])])),
       [(''manhuaplus'', infoCall rt ident (PROVIDERS ! 0)),
        (''manhuaus'', infoCall rt ident (PROVIDERS ! 1))])"
proof -
  have "infoHandler rt (Some ident) = infoLoop rt ident PROVIDERS [] []"
    using ident by (simp add: infoHandler_def)
  also note infoLoop_exhausted [OF fails, of "[]" "[]"]
  finally show ?thesis
    by (simp add: PROVIDERS_def failureReason_def)
qed

text \<open>
  The exhaustion case, through the theorem: the first provider's result is invalid, the
  second answers with status 500.
\<close>

theorem info_exhaustion_not_found_witness:
  "''missing'' \<noteq> []
   \<and> failsInfo (infoCall exampleRuntime ''missing'' (PROVIDERS ! 0))
   \<and> failsInfo (infoCall exampleRuntime ''missing'' (PROVIDERS ! 1))
   \<and> infoHandler exampleRuntime (Some ''missing'') =
      (Inr (Reply 404 (JObj
         [(''message'', JStr ''Manhwa not found on any provider''),
          (''errors'', JArr
             [JStr ''manhuaplus: Invalid data (no chapters or title)'',
              JStr ''manhuaus: Status 500'']),
          (''triedProviders'', JArr [JStr ''manhuaplus'', JStr ''manhuaus''])])),
       [(''manhuaplus'', Success (JObj [(''results'', JArr [])])),
        (''manhuaus'', Failure ''Status 500'')])"
proof -
  have h1: "''missing'' \<noteq> []" by simp
  have h2: "\<forall>p\<in>set PROVIDERS. failsInfo (infoCall exampleRuntime ''missing'' p)"
    by (simp add: example_defs)
  have c1: "infoCall exampleRuntime ''missing'' (PROVIDERS ! 0) = Success (JObj [(''results'', JArr [])])"
    by (simp add: example_defs)
  have c2: "infoCall exampleRuntime ''missing'' (PROVIDERS ! Suc 0) = Failure ''Status 500''"
    by (simp add: example_defs digitChar_def)
  have f0: "failsInfo (infoCall exampleRuntime ''missing'' (PROVIDERS ! 0))"
    and f1: "failsInfo (infoCall exampleRuntime ''missing'' (PROVIDERS ! 1))"
    using h2 by (simp_all add: PROVIDERS_def)
  from info_exhaustion_not_found [OF h1 h2]
  have "infoHandler exampleRuntime (Some ''missing'') =
      (Inr (Reply 404 (JObj
         [(''message'', JStr ''Manhwa not found on any provider''),
          (''errors'', JArr
             [JStr ''manhuaplus: Invalid data (no chapters or title)'',
              JStr ''manhuaus: Status 500'']),
          (''triedProviders'', JArr [JStr ''manhuaplus'', JStr ''manhuaus''])])),
       [(''manhuaplus'', Success (JObj [(''results'', JArr [])])),
        (''manhuaus'', Failure ''Status 500'')])"
    by (simp add: c1 c2 reasonText_def)
  with h1 f0 f1 show ?thesis by simp
qed

lemma resultsLoop_exhausted:
  "\<forall>p\<in>set ps. \<not> validResults (fetchFromProvider rt (name p) endpoint params) \<Longrightarrow>
     resultsLoop rt endpoint params ps tr0 =
       (None, tr0 @ map (\<lambda>p. (name p, fetchFromProvider rt (name p) endpoint params)) ps)"
  by (induction ps arbitrary: tr0) (auto simp: validResults_def split: fetchResult.splits)

lemma emptyResults_eq:
  "emptyResults rt pageNum =
     Reply 200 (JObj
       [(''currentPage'', numberJson (parseInt rt pageNum)),
        (''hasNextPage'', JBool False),
        (''results'', JArr []),
        (''provider'', JStr ''manhuaplus'')])"
  by (simp add: emptyResults_def PROVIDERS_def)

text \<open>
  Claim C10. In \<^verbatim>\<open>/search\<close> (for a request with a query), \<^verbatim>\<open>/latest\<close>,
  \<^verbatim>\<open>/advanced-search\<close> and \<^verbatim>\<open>/genre/:slug\<close>: when no provider brings back a valid result,
  the reply is not a not-found error but the empty page: status 200, an empty \<^verbatim>\<open>results\<close>
  list, \<^verbatim>\<open>hasNextPage\<close> false and \<^verbatim>\<open>provider\<close> the name of the first provider of the list.
  The reply has these fields and \<^verbatim>\<open>currentPage\<close> only: the failures of the providers are
  not in it.
\<close>

theorem results_exhaustion_is_empty_page:
  "(query \<noteq> [] \<and>
      (\<forall>p\<in>set PROVIDERS. \<not> validResults
          (fetchFromProvider rt (name p) (''/'' @ encodeURIComponent query)
             [(''page'', orDefault page ''1'')]))
      \<longrightarrow> fst (searchHandler rt (Some query) page) = emptyResults rt (orDefault page ''1''))
   \<and> ((\<forall>p\<in>set PROVIDERS. \<not> validResults
          (fetchFromProvider rt (name p) ''/latest'' [(''page'', orDefault page ''1'')]))
      \<longrightarrow> fst (latestHandler rt page) = emptyResults rt (orDefault page ''1''))
   \<and> ((\<forall>p\<in>set PROVIDERS. \<not> validResults
          (fetchFromProvider rt (name p) ''/advanced-search''
             (optParam ''query'' queryParam @ optParam ''page'' page @ optParam ''status'' statusParam
                @ optParam ''sort'' sortParam @ optParam ''genres'' genres)))
      \<longrightarrow> fst (advancedSearchHandler rt queryParam page statusParam sortParam genres)
            = emptyResults rt (orDefault page ''1''))
   \<and> ((\<forall>p\<in>set PROVIDERS. \<not> validResults
          (fetchFromProvider rt (name p) (''/genre/'' @ encodeURIComponent slug)
             [(''page'', orDefault page ''1'')]))
      \<longrightarrow> fst (genreHandler rt slug page) = emptyResults rt (orDefault page ''1''))
   \<and> status (emptyResults rt pageNum) = 200
   \<and> field (body (emptyResults rt pageNum)) ''results'' = Some (JArr [])
   \<and> field (body (emptyResults rt pageNum)) ''hasNextPage'' = Some (JBool False)
   \<and> field (body (emptyResults rt pageNum)) ''provider'' = Some (JStr (name (PROVIDERS ! 0)))
   \<and> field (body (emptyResults rt pageNum)) ''errors'' = None
   \<and> map fst (ownProperties (body (emptyResults rt pageNum)))
        = [''currentPage'', ''hasNextPage'', ''results'', ''provider'']"
proof -
  have s: "query \<noteq> [] \<Longrightarrow>
      \<forall>p\<in>set PROVIDERS. \<not> validResults
          (fetchFromProvider rt (name p) (''/'' @ encodeURIComponent query)
             [(''page'', orDefault page ''1'')])
      \<Longrightarrow> fst (searchHandler rt (Some query) page) = emptyResults rt (orDefault page ''1'')"
    by (simp add: searchHandler_def resultsLoop_exhausted finish_def orDefault_def Let_def)
  have l: "\<forall>p\<in>set PROVIDERS. \<not> validResults
          (fetchFromProvider rt (name p) ''/latest'' [(''page'', orDefault page ''1'')])
      \<Longrightarrow> fst (latestHandler rt page) = emptyResults rt (orDefault page ''1'')"
    by (simp add: latestHandler_def resultsLoop_exhausted finish_def Let_def)
  have a: "\<forall>p\<in>set PROVIDERS. \<not> validResults
          (fetchFromProvider rt (name p) ''/advanced-search''
             (optParam ''query'' queryParam @ optParam ''page'' page @ optParam ''status'' statusParam
                @ optParam ''sort'' sortParam @ optParam ''genres'' genres))
      \<Longrightarrow> fst (advancedSearchHandler rt queryParam page statusParam sortParam genres)
            = emptyResults rt (orDefault page ''1'')"
    by (simp add: advancedSearchHandler_def resultsLoop_exhausted finish_def Let_def)
  have g: "\<forall>p\<in>set PROVIDERS. \<not> validResults
          (fetchFromProvider rt (name p) (''/genre/'' @ encodeURIComponent slug)
             [(''page'', orDefault page ''1'')])
      \<Longrightarrow> fst (genreHandler rt slug page) = emptyResults rt (orDefault page ''1'')"
    by (simp add: genreHandler_def resultsLoop_exhausted finish_def Let_def)
  have e: "status (emptyResults rt pageNum) = 200
   \<and> field (body (emptyResults rt pageNum)) ''results'' = Some (JArr [])
   \<and> field (body (emptyResults rt pageNum)) ''hasNextPage'' = Some (JBool False)
   \<and> field (body (emptyResults rt pageNum)) ''provider'' = Some (JStr (name (PROVIDERS ! 0)))
   \<and> field (body (emptyResults rt pageNum)) ''errors'' = None
   \<and> map fst (ownProperties (body (emptyResults rt pageNum)))
        = [''currentPage'', ''hasNextPage'', ''results'', ''provider'']"
    by (simp add: emptyResults_def)
  from s l a g e show ?thesis by blast
qed

text \<open>
  The four routes in the example world, through the theorem: the first provider answers
  with an empty page, the second with status 500.
\<close>

theorem results_exhaustion_is_empty_page_witness:
  "fst (searchHandler exampleRuntime (Some ''no such title'') None) =
      Reply 200 (JObj [(''currentPage'', JNum 1), (''hasNextPage'', JBool False),
                       (''results'', JArr []), (''provider'', JStr ''manhuaplus'')])
   \<and> fst (latestHandler exampleRuntime None) =
      Reply 200 (JObj [(''currentPage'', JNum 1), (''hasNextPage'', JBool False),
                       (''results'', JArr []), (''provider'', JStr ''manhuaplus'')])
   \<and> fst (advancedSearchHandler exampleRuntime None None (Some ''ongoing'') None None) =
      Reply 200 (JObj [(''currentPage'', JNum 1), (''hasNextPage'', JBool False),
                       (''results'', JArr []), (''provider'', JStr ''manhuaplus'')])
   \<and> fst (genreHandler exampleRuntime ''action'' None) =
      Reply 200 (JObj [(''currentPage'', JNum 1), (''hasNextPage'', JBool False),
                       (''results'', JArr []), (''provider'', JStr ''manhuaplus'')])"
proof -
  have h1: "''no such title'' \<noteq> [] \<and> (\<forall>p\<in>set PROVIDERS. \<not> validResults
          (fetchFromProvider exampleRuntime (name p) (''/'' @ encodeURIComponent ''no such title'')
             [(''page'', orDefault None ''1'')]))"
    by (simp add: example_defs)
  have h2: "\<forall>p\<in>set PROVIDERS. \<not> validResults
          (fetchFromProvider exampleRuntime (name p) ''/latest'' [(''page'', orDefault None ''1'')])"
    by (simp add: example_defs)
  have h3: "\<forall>p\<in>set PROVIDERS. \<not> validResults
          (fetchFromProvider exampleRuntime (name p) ''/advanced-search''
             (optParam ''query'' None @ optParam ''page'' None @ optParam ''status'' (Some ''ongoing'')
                @ optParam ''sort'' None @ optParam ''genres'' None))"
    by (simp add: example_defs)
  have h4: "\<forall>p\<in>set PROVIDERS. \<not> validResults
          (fetchFromProvider exampleRuntime (name p) (''/genre/'' @ encodeURIComponent ''action'')
             [(''page'', orDefault None ''1'')])"
    by (simp add: example_defs)
  have e: "emptyResults exampleRuntime (orDefault None ''1'') =
      Reply 200 (JObj [(''currentPage'', JNum 1), (''hasNextPage'', JBool False),
                       (''results'', JArr []), (''provider'', JStr ''manhuaplus'')])"
    by (simp add: emptyResults_eq exampleRuntime_def orDefault_def numberJson_def)
  from results_exhaustion_is_empty_page
         [of "''no such title''" exampleRuntime None None "Some ''ongoing''" None None "''action''"]
       h1 h2 h3 h4
  show ?thesis by (simp add: e)
qed

section \<open>Properties of the retrying transport\<close>

lemma attempts_append: "attempts (xs @ ys) = attempts xs @ attempts ys"
  by (induction xs rule: attempts.induct) simp_all

lemma retryLoop_attempts:
  "length (attempts (snd (retryLoop get maxR delayR a lastE evs)))
     \<le> length (attempts evs) + nat (maxR + 1 - a)"
proof (induction get maxR delayR a lastE evs rule: retryLoop.induct)
  case (1 get maxR delayR attempt lastError evs)
  show ?case
  proof (cases "attempt \<le> maxR")
    case False
    then show ?thesis by (subst retryLoop.simps) simp
  next
    case le: True
    show ?thesis
    proof (cases "get attempt")
      case (Inr response)
      with le show ?thesis
        by (subst retryLoop.simps) (simp add: attempts_append)
    next
      case (Inl error)
      show ?thesis
      proof (cases "attempt < maxR")
        case True
        with le Inl "1.IH"(1) [OF le Inl True] show ?thesis
          by (subst retryLoop.simps) (simp add: attempts_append)
      next
        case False
        with le Inl "1.IH"(2) [OF le Inl False] show ?thesis
          by (subst retryLoop.simps) (simp add: attempts_append)
      qed
    qed
  qed
qed

lemma scheduleFrom_step:
  "a < m \<Longrightarrow> scheduleFrom base a m = [Attempt a, Wait (base * 2 ^ nat (a - 1))] @ scheduleFrom base (a + 1) m"
  by (simp add: scheduleFrom_def upto_rec1 [of a "m - 1"])

lemma scheduleFrom_last: "scheduleFrom base a a = [Attempt a]"
  by (simp add: scheduleFrom_def)

lemma retryLoop_schedule:
  "a \<le> maxR \<Longrightarrow>
     \<exists>m. a \<le> m \<and> m \<le> maxR
       \<and> snd (retryLoop get maxR delayR a lastE evs) = evs @ scheduleFrom delayR a m
       \<and> (\<forall>k. a \<le> k \<and> k < m \<longrightarrow> isl (get k))
       \<and> (case get m of
             Inr response \<Rightarrow> fst (retryLoop get maxR delayR a lastE evs) = Inr response
           | Inl error \<Rightarrow> m = maxR \<and> fst (retryLoop get maxR delayR a lastE evs) = Inl (Some error))"
proof (induction get maxR delayR a lastE evs rule: retryLoop.induct)
  case (1 get maxR delayR attempt lastError evs)
  note le = \<open>attempt \<le> maxR\<close>
  show ?case
  proof (cases "get attempt")
    case (Inr response)
    have "retryLoop get maxR delayR attempt lastError evs = (Inr response, evs @ [Attempt attempt])"
      using le Inr by (subst retryLoop.simps) simp
    with Inr le show ?thesis
      by (intro exI [of _ attempt]) (auto simp: scheduleFrom_last)
  next
    case (Inl error)
    show ?thesis
    proof (cases "attempt < maxR")
      case True
      have step: "retryLoop get maxR delayR attempt lastError evs
          = retryLoop get maxR delayR (attempt + 1) (Some error)
              (evs @ [Attempt attempt, Wait (delayR * 2 ^ nat (attempt - 1))])"
        using le Inl True by (subst retryLoop.simps) simp
      from True have "attempt + 1 \<le> maxR" by simp
      from "1.IH"(1) [OF le Inl True this]
      obtain m where m: "attempt + 1 \<le> m" "m \<le> maxR"
        and s: "snd (retryLoop get maxR delayR (attempt + 1) (Some error)
                  (evs @ [Attempt attempt, Wait (delayR * 2 ^ nat (attempt - 1))]))
                = (evs @ [Attempt attempt, Wait (delayR * 2 ^ nat (attempt - 1))])
                    @ scheduleFrom delayR (attempt + 1) m"
        and f: "\<forall>k. attempt + 1 \<le> k \<and> k < m \<longrightarrow> isl (get k)"
        and r: "case get m of
             Inr response \<Rightarrow> fst (retryLoop get maxR delayR (attempt + 1) (Some error)
                  (evs @ [Attempt attempt, Wait (delayR * 2 ^ nat (attempt - 1))])) = Inr response
           | Inl error' \<Rightarrow> m = maxR \<and> fst (retryLoop get maxR delayR (attempt + 1) (Some error)
                  (evs @ [Attempt attempt, Wait (delayR * 2 ^ nat (attempt - 1))])) = Inl (Some error')"
        by blast
      have f': "\<forall>k. attempt \<le> k \<and> k < m \<longrightarrow> isl (get k)"
      proof (intro allI impI)
        fix k assume "attempt \<le> k \<and> k < m"
        then have "k = attempt \<or> (attempt + 1 \<le> k \<and> k < m)" by auto
        with f Inl show "isl (get k)" by auto
      qed
      from m have lt: "attempt < m" by simp
      show ?thesis
        using m s f' r lt
        by (intro exI [of _ m]) (auto simp: step scheduleFrom_step [OF lt] split: sum.splits)
    next
      case False
      with le have eq: "attempt = maxR" by simp
      have "retryLoop get maxR delayR attempt lastError evs = (Inl (Some error), evs @ [Attempt attempt])"
        using le Inl False
        by (subst retryLoop.simps, simp, subst retryLoop.simps, simp)
      with Inl eq show ?thesis
        by (intro exI [of _ attempt]) (auto simp: scheduleFrom_last)
    qed
  qed
qed

lemma fetchWithRetry_schedule:
  assumes "1 \<le> optionOr options maxRetries 3"
  shows "\<exists>m. 1 \<le> m \<and> m \<le> optionOr options maxRetries 3
       \<and> snd (fetchWithRetry url options get) = schedule (optionOr options retryDelay 1000) m
       \<and> (\<forall>k. 1 \<le> k \<and> k < m \<longrightarrow> isl (get k))
       \<and> (case get m of
             Inr response \<Rightarrow> fst (fetchWithRetry url options get) = Inr response
           | Inl error \<Rightarrow> m = optionOr options maxRetries 3
                           \<and> fst (fetchWithRetry url options get) = Inl error)"
proof -
  from retryLoop_schedule [OF assms, of get "optionOr options retryDelay 1000" None "[]"]
  obtain m where m: "1 \<le> m" "m \<le> optionOr options maxRetries 3"
    and s: "snd (retryLoop get (optionOr options maxRetries 3) (optionOr options retryDelay 1000) 1 None [])
              = scheduleFrom (optionOr options retryDelay 1000) 1 m"
    and f: "\<forall>k. 1 \<le> k \<and> k < m \<longrightarrow> isl (get k)"
    and r: "case get m of
             Inr response \<Rightarrow> fst (retryLoop get (optionOr options maxRetries 3)
                                   (optionOr options retryDelay 1000) 1 None []) = Inr response
           | Inl error \<Rightarrow> m = optionOr options maxRetries 3
               \<and> fst (retryLoop get (optionOr options maxRetries 3)
                        (optionOr options retryDelay 1000) 1 None []) = Inl (Some error)"
    by auto
  show ?thesis
    using m s f r
    by (intro exI [of _ m]) (auto simp: fetchWithRetry_def schedule_def Let_def split: sum.splits)
qed

lemma fetchWithRetry_attempts:
  "length (attempts (snd (fetchWithRetry url options get))) \<le> nat (optionOr options maxRetries 3)"
  using retryLoop_attempts [of get "optionOr options maxRetries 3" "optionOr options retryDelay 1000" 1 None "[]"]
  by (simp add: fetchWithRetry_def Let_def split: sum.splits option.splits)

lemma fetchWithRetry_all_fail:
  assumes n: "1 \<le> optionOr options maxRetries 3"
    and fail: "\<forall>k. 1 \<le> k \<and> k \<le> optionOr options maxRetries 3 \<longrightarrow> isl (get k)"
  shows "\<exists>error. get (optionOr options maxRetries 3) = Inl error
     \<and> fetchWithRetry url options get
         = (Inl error, schedule (optionOr options retryDelay 1000) (optionOr options maxRetries 3))"
proof -
  from fetchWithRetry_schedule [OF n, of url get]
  obtain m where m: "1 \<le> m" "m \<le> optionOr options maxRetries 3"
    and s: "snd (fetchWithRetry url options get) = schedule (optionOr options retryDelay 1000) m"
    and r: "case get m of
             Inr response \<Rightarrow> fst (fetchWithRetry url options get) = Inr response
           | Inl error \<Rightarrow> m = optionOr options maxRetries 3
                           \<and> fst (fetchWithRetry url options get) = Inl error"
    by blast
  from fail m obtain error where e: "get m = Inl error"
    by (cases "get m") auto
  with r have "m = optionOr options maxRetries 3" "fst (fetchWithRetry url options get) = Inl error"
    by simp_all
  with s e show ?thesis
    by (intro exI [of _ error]) (simp add: prod_eq_iff)
qed

lemma scheduleFrom_split:
  "a \<le> k \<Longrightarrow> k < m \<Longrightarrow>
     scheduleFrom base a m
       = concat (map (\<lambda>j. [Attempt j, Wait (base * 2 ^ nat (j - 1))]) [a..k - 1])
           @ [Attempt k, Wait (base * 2 ^ nat (k - 1))] @ scheduleFrom base (k + 1) m"
proof -
  assume "a \<le> k" "k < m"
  then have "[a..m - 1] = [a..k - 1] @ k # [k + 1..m - 1]"
    using upto_split3 [of a k "m - 1"] by simp
  then show ?thesis by (simp add: scheduleFrom_def)
qed

lemma scheduleFrom_head: "a \<le> m \<Longrightarrow> \<exists>rest. scheduleFrom base a m = Attempt a # rest"
  by (cases "a = m") (auto simp: scheduleFrom_last scheduleFrom_step)

lemma attempts_scheduleFrom: "a \<le> m \<Longrightarrow> attempts (scheduleFrom base a m) = [a..m]"
proof (induction "nat (m - a)" arbitrary: a)
  case 0
  then have "a = m" by simp
  then show ?case by (simp add: scheduleFrom_last)
next
  case (Suc n)
  then have lt: "a < m" and n: "n = nat (m - (a + 1))" and le: "a + 1 \<le> m" by simp_all
  from Suc.hyps(1) [OF n le] lt show ?case
    by (simp add: scheduleFrom_step upto_rec1 [of a m])
qed

lemma waits_scheduleFrom:
  "a \<le> m \<Longrightarrow> waits (scheduleFrom base a m) = map (\<lambda>k. base * 2 ^ nat (k - 1)) [a..m - 1]"
proof (induction "nat (m - a)" arbitrary: a)
  case 0
  then have "a = m" by simp
  then show ?case by (simp add: scheduleFrom_last)
next
  case (Suc n)
  then have lt: "a < m" and n: "n = nat (m - (a + 1))" and le: "a + 1 \<le> m" by simp_all
  from Suc.hyps(1) [OF n le] lt show ?case
    by (simp add: scheduleFrom_step upto_rec1 [of a "m - 1"])
qed

lemma last_scheduleFrom: "last (scheduleFrom base a m) = Attempt m"
  by (simp add: scheduleFrom_def)

text \<open>
  Claim C4. With \<open>N\<close> the number of attempts (\<^verbatim>\<open>maxRetries\<close>, 3 when not given) and
  \<open>base\<close> the base delay (\<^verbatim>\<open>retryDelay\<close>, 1000 ms when not given): \<^verbatim>\<open>fetchWithRetry\<close>
  makes at most \<open>N\<close> attempts. For \<open>N \<ge> 1\<close> its log is the schedule of some \<open>m \<le> N\<close>
  attempts: the attempts 1 to \<open>m\<close> in order, each failed attempt \<open>k < m\<close> followed by a
  delay of exactly \<open>base * 2 ^ (k - 1)\<close> handed to \<^verbatim>\<open>setTimeout\<close> (for three attempts:
  \<open>base\<close> after the first failure and \<open>2 * base\<close> after the second), and nothing after the
  last attempt; either attempt \<open>m\<close> succeeded and its data is returned, or \<open>m = N\<close> and the
  error of that last attempt is thrown. When all \<open>N\<close> attempts fail, the error of the last
  one is thrown right after it, with no further delay.
\<close>

theorem fetchWithRetry_backoff:
  "length (attempts (snd (fetchWithRetry url options get))) \<le> nat (optionOr options maxRetries 3)
   \<and> (1 \<le> optionOr options maxRetries 3 \<longrightarrow>
        (\<exists>m. 1 \<le> m \<and> m \<le> optionOr options maxRetries 3
           \<and> snd (fetchWithRetry url options get) = schedule (optionOr options retryDelay 1000) m
           \<and> (\<forall>k. 1 \<le> k \<and> k < m \<longrightarrow> isl (get k))
           \<and> (case get m of
                 Inr response \<Rightarrow> fst (fetchWithRetry url options get) = Inr response
               | Inl error \<Rightarrow> m = optionOr options maxRetries 3
                               \<and> fst (fetchWithRetry url options get) = Inl error)))
   \<and> (1 \<le> optionOr options maxRetries 3
        \<and> (\<forall>k. 1 \<le> k \<and> k \<le> optionOr options maxRetries 3 \<longrightarrow> isl (get k)) \<longrightarrow>
        (\<exists>error. get (optionOr options maxRetries 3) = Inl error
           \<and> fetchWithRetry url options get
               = (Inl error, schedule (optionOr options retryDelay 1000) (optionOr options maxRetries 3))))
   \<and> (1 \<le> n \<longrightarrow>
        attempts (schedule base n) = [1..n]
        \<and> waits (schedule base n) = map (\<lambda>k. base * 2 ^ nat (k - 1)) [1..n - 1]
        \<and> last (schedule base n) = Attempt n)
   \<and> schedule base 3 = [Attempt 1, Wait base, Attempt 2, Wait (base * 2), Attempt 3]
   \<and> optionOr None maxRetries 3 = 3 \<and> optionOr None retryDelay 1000 = 1000"
proof -
  have a: "length (attempts (snd (fetchWithRetry url options get))) \<le> nat (optionOr options maxRetries 3)"
    by (rule fetchWithRetry_attempts)
  have b: "1 \<le> n \<Longrightarrow> attempts (schedule base n) = [1..n]
        \<and> waits (schedule base n) = map (\<lambda>k. base * 2 ^ nat (k - 1)) [1..n - 1]
        \<and> last (schedule base n) = Attempt n"
    by (simp add: schedule_def attempts_scheduleFrom waits_scheduleFrom last_scheduleFrom)
  have c: "schedule base 3 = [Attempt 1, Wait base, Attempt 2, Wait (base * 2), Attempt 3]"
    by (simp add: schedule_def scheduleFrom_def upto_rec1)
  have d: "optionOr None maxRetries 3 = 3 \<and> optionOr None retryDelay 1000 = 1000"
    by (simp add: optionOr_def)
  from a b c d fetchWithRetry_schedule [of options url get] fetchWithRetry_all_fail [of options get url]
  show ?thesis by blast
qed

text \<open>
  The default policy against a transport that always times out, through the theorem:
  three attempts, delays of 1000 and 2000 ms between them, then the last error.
\<close>

theorem fetchWithRetry_backoff_witness:
  "fetchWithRetry ''https://site.example/page'' None alwaysTimeout
     = (Inl (NetworkError ''timeout of 30000ms exceeded''),
        [Attempt 1, Wait 1000, Attempt 2, Wait 2000, Attempt 3])"
proof -
  have n: "optionOr None maxRetries 3 = 3" and d: "optionOr None retryDelay 1000 = 1000"
    by (simp_all add: optionOr_def)
  have fail: "\<forall>k. 1 \<le> k \<and> k \<le> optionOr None maxRetries 3 \<longrightarrow> isl (alwaysTimeout k)"
    by (simp add: alwaysTimeout_def)
  from fetchWithRetry_backoff [of "''https://site.example/page''" None alwaysTimeout 3 1000]
  have imp: "1 \<le> optionOr None maxRetries 3
        \<and> (\<forall>k. 1 \<le> k \<and> k \<le> optionOr None maxRetries 3 \<longrightarrow> isl (alwaysTimeout k)) \<longrightarrow>
        (\<exists>error. alwaysTimeout (optionOr None maxRetries 3) = Inl error
           \<and> fetchWithRetry ''https://site.example/page'' None alwaysTimeout
               = (Inl error, schedule (optionOr None retryDelay 1000) (optionOr None maxRetries 3)))"
    and sch: "schedule 1000 3 = [Attempt 1, Wait 1000, Attempt 2, Wait (1000 * 2), Attempt 3]"
    by blast+
  from imp fail n d obtain error where "alwaysTimeout 3 = Inl error"
    and "fetchWithRetry ''https://site.example/page'' None alwaysTimeout = (Inl error, schedule 1000 3)"
    by auto
  with sch show ?thesis by (simp add: alwaysTimeout_def)
qed

text \<open>
  Claim C5, as amended. The retry logic does not look at the kind of failure: when attempt
  \<open>k\<close>, not the last, fails with any error (an HTTP status error 4xx included), the delay
  \<open>base * 2 ^ (k - 1)\<close> is waited and attempt \<open>k + 1\<close> is made, as after any other failure.
\<close>

theorem retry_ignores_error_kind:
  assumes k: "1 \<le> k" "k < optionOr options maxRetries 3"
    and before: "\<forall>j. 1 \<le> j \<and> j < k \<longrightarrow> isl (get j)"
    and failed: "get k = Inl error"
  shows "k + 1 \<in> set (attempts (snd (fetchWithRetry url options get)))
     \<and> (\<exists>pre post. snd (fetchWithRetry url options get)
           = pre @ [Attempt k, Wait (optionOr options retryDelay 1000 * 2 ^ nat (k - 1)), Attempt (k + 1)]
               @ post)"
proof -
  from k have n: "1 \<le> optionOr options maxRetries 3" by simp
  from fetchWithRetry_schedule [OF n, of url get]
  obtain m where m: "1 \<le> m" "m \<le> optionOr options maxRetries 3"
    and s: "snd (fetchWithRetry url options get) = schedule (optionOr options retryDelay 1000) m"
    and r: "case get m of
             Inr response \<Rightarrow> fst (fetchWithRetry url options get) = Inr response
           | Inl error \<Rightarrow> m = optionOr options maxRetries 3
                           \<and> fst (fetchWithRetry url options get) = Inl error"
    by blast
  have km: "k < m"
  proof (rule ccontr)
    assume "\<not> k < m"
    then have "m \<le> k" by simp
    with before failed m(1) have "isl (get m)" by (cases "m = k") auto
    with r have "m = optionOr options maxRetries 3" by (cases "get m") auto
    with \<open>m \<le> k\<close> k show False by simp
  qed
  from scheduleFrom_head [of "k + 1" m "optionOr options retryDelay 1000"] km
  obtain rest where h: "scheduleFrom (optionOr options retryDelay 1000) (k + 1) m = Attempt (k + 1) # rest"
    by auto
  from scheduleFrom_split [OF k(1) km, of "optionOr options retryDelay 1000"] h s
  have split: "snd (fetchWithRetry url options get)
      = concat (map (\<lambda>j. [Attempt j, Wait (optionOr options retryDelay 1000 * 2 ^ nat (j - 1))]) [1..k - 1])
          @ [Attempt k, Wait (optionOr options retryDelay 1000 * 2 ^ nat (k - 1)), Attempt (k + 1)] @ rest"
    by (simp add: schedule_def)
  from k m km have "k + 1 \<in> set [1..m]" by simp
  with s m have "k + 1 \<in> set (attempts (snd (fetchWithRetry url options get)))"
    by (simp add: schedule_def attempts_scheduleFrom)
  with split show ?thesis by blast
qed

text \<open>
  A first attempt answered 404 is followed by a second attempt, through the theorem.
\<close>

theorem retry_ignores_error_kind_witness:
  "alwaysNotFound 1 = Inl (HttpStatusError 404)
   \<and> 2 \<in> set (attempts (snd (fetchWithRetry ''https://site.example/page'' None alwaysNotFound)))"
proof -
  have k: "(1::int) \<le> 1" "1 < optionOr None maxRetries 3" by (simp_all add: optionOr_def)
  have before: "\<forall>j. 1 \<le> j \<and> j < (1::int) \<longrightarrow> isl (alwaysNotFound j)" by auto
  have failed: "alwaysNotFound 1 = Inl (HttpStatusError 404)" by (simp add: alwaysNotFound_def)
  from retry_ignores_error_kind [OF k before failed, of "''https://site.example/page''"] failed
  show ?thesis by simp
qed

text \<open>
  Claim C5 as it was stated fails: against a transport that answers every request with
  status 404, the default policy makes all three attempts, with both delays.
\<close>

theorem retry_not_found_counterexample:
  "fetchWithRetry ''https://site.example/page'' None alwaysNotFound
     = (Inl (HttpStatusError 404), [Attempt 1, Wait 1000, Attempt 2, Wait 2000, Attempt 3])"
  by (simp add: fetchWithRetry_def optionOr_def retryLoop.simps alwaysNotFound_def)

section \<open>Properties of the render service\<close>

lemma await_log: "snd (await a r rest) = a # (if r = None then snd rest else [])"
  by (cases r) simp_all

lemma await_result: "fst (await a r rest) = (case r of None \<Rightarrow> fst rest | Some e \<Rightarrow> Inl e)"
  by (cases r) simp_all

lemma body_no_close: "ClosePage \<notin> set (snd (scrapeDynamicBody w url selector t))"
  by (auto simp: scrapeDynamicBody_def await_log Let_def split: sum.splits if_splits)

lemma scrapeDynamic_opened:
  "pageOpened w browser \<Longrightarrow>
     scrapeDynamic w browser url selector timeoutParam =
       (fst (finallyClose w (scrapeDynamicBody w url selector
               (case timeoutParam of None \<Rightarrow> 20000 | Some t \<Rightarrow> t))),
        NewPage # snd (scrapeDynamicBody w url selector
               (case timeoutParam of None \<Rightarrow> 20000 | Some t \<Rightarrow> t)) @ [ClosePage])"
  by (auto simp: pageOpened_def scrapeDynamic_def getCleanPage_def finallyClose_def Let_def
      split: option.splits)

lemma scrapeDynamic_not_opened:
  "\<not> pageOpened w browser \<Longrightarrow>
     ClosePage \<notin> set (snd (scrapeDynamic w browser url selector timeoutParam))
     \<and> isl (fst (scrapeDynamic w browser url selector timeoutParam))"
  by (auto simp: pageOpened_def scrapeDynamic_def getCleanPage_def Let_def split: option.splits)

lemma count_close:
  "ClosePage \<notin> set xs \<Longrightarrow> count_list (NewPage # xs @ [ClosePage]) ClosePage = 1"
  by (induction xs) auto

text \<open>
  Claim C6, as amended. In \<^verbatim>\<open>scrapeDynamic\<close>, a timeout while waiting for the selector the
  caller gave (a non-empty one) is fatal: once the page is set up and navigation has
  succeeded, the call fails and the page content is never read; the error of the call is the
  error of \<^verbatim>\<open>waitForSelector\<close>, or the error of \<^verbatim>\<open>page.close()\<close> when closing the
  page throws as well. An error of the navigation ends the call likewise. The page is closed
  on every exit path: whenever the page was opened, \<^verbatim>\<open>page.close()\<close> is called exactly
  once, as the last action on it (and when no page could be opened the call fails with nothing
  to close).
\<close>

theorem scrapeDynamic_selector_timeout_fatal:
  "(pageOpened w browser \<and> setUserAgentResult w = None \<and> setViewportResult w = None
      \<and> gotoResult w = None \<and> selector = Some sel \<and> sel \<noteq> [] \<and> waitForSelectorResult w = Some e
     \<longrightarrow> fst (scrapeDynamic w browser url selector timeoutParam) = Inl (afterClose w e)
         \<and> Content \<notin> set (snd (scrapeDynamic w browser url selector timeoutParam)))
   \<and> (pageOpened w browser \<and> setUserAgentResult w = None \<and> setViewportResult w = None
      \<and> gotoResult w = Some e
     \<longrightarrow> fst (scrapeDynamic w browser url selector timeoutParam) = Inl (afterClose w e))
   \<and> (pageOpened w browser
     \<longrightarrow> last (snd (scrapeDynamic w browser url selector timeoutParam)) = ClosePage
         \<and> count_list (snd (scrapeDynamic w browser url selector timeoutParam)) ClosePage = 1)
   \<and> (\<not> pageOpened w browser
     \<longrightarrow> ClosePage \<notin> set (snd (scrapeDynamic w browser url selector timeoutParam))
         \<and> isl (fst (scrapeDynamic w browser url selector timeoutParam)))"
proof -
  have a: "pageOpened w browser \<and> setUserAgentResult w = None \<and> setViewportResult w = None
      \<and> gotoResult w = None \<and> selector = Some sel \<and> sel \<noteq> [] \<and> waitForSelectorResult w = Some e
     \<Longrightarrow> fst (scrapeDynamic w browser url selector timeoutParam) = Inl (afterClose w e)
         \<and> Content \<notin> set (snd (scrapeDynamic w browser url selector timeoutParam))"
    by (auto simp: scrapeDynamic_opened scrapeDynamicBody_def finallyClose_def afterClose_def
        orDefault_def Let_def split: option.splits)
  have b: "pageOpened w browser \<and> setUserAgentResult w = None \<and> setViewportResult w = None
      \<and> gotoResult w = Some e
     \<Longrightarrow> fst (scrapeDynamic w browser url selector timeoutParam) = Inl (afterClose w e)"
    by (auto simp: scrapeDynamic_opened scrapeDynamicBody_def finallyClose_def afterClose_def
        Let_def split: option.splits)
  have c: "pageOpened w browser
     \<Longrightarrow> last (snd (scrapeDynamic w browser url selector timeoutParam)) = ClosePage
         \<and> count_list (snd (scrapeDynamic w browser url selector timeoutParam)) ClosePage = 1"
    using body_no_close by (simp add: scrapeDynamic_opened count_close)
  from a b c scrapeDynamic_not_opened [of w browser url selector timeoutParam]
  show ?thesis by blast
qed

text \<open>
  Claim C6 as it was stated fails: the page has content, the selector wait times out, and the
  call does not return the content but throws the timeout error.
\<close>

theorem scrapeDynamic_selector_timeout_counterexample:
  "contentResult selectorTimeoutWorld = Inr ''<html><body>loading</body></html>''
   \<and> scrapeDynamic selectorTimeoutWorld True ''https://site.example/title/1'' (Some ''.chapter-list'') None
      = (Inl (TimeoutError ''Waiting for selector .chapter-list failed: 15000ms exceeded''),
         [NewPage, SetUserAgent, SetViewport 1920 1080,
          Goto ''https://site.example/title/1'' ''networkidle2'' 20000,
          WaitForSelector ''.chapter-list'' 15000, ClosePage])"
  by (simp add: selectorTimeoutWorld_def scrapeDynamic_def getCleanPage_def scrapeDynamicBody_def
      finallyClose_def orDefault_def)

text \<open>
  The same site with a fresh browser, through the theorem.
\<close>

theorem scrapeDynamic_selector_timeout_fatal_witness:
  "pageOpened selectorTimeoutWorld False
   \<and> fst (scrapeDynamic selectorTimeoutWorld False ''https://site.example/title/1'' (Some ''.chapter-list'') (Some 5000))
      = Inl (TimeoutError ''Waiting for selector .chapter-list failed: 15000ms exceeded'')
   \<and> Content \<notin> set (snd (scrapeDynamic selectorTimeoutWorld False ''https://site.example/title/1'' (Some ''.chapter-list'') (Some 5000)))
   \<and> last (snd (scrapeDynamic selectorTimeoutWorld False ''https://site.example/title/1'' (Some ''.chapter-list'') (Some 5000)))
      = ClosePage"
proof -
  have h: "pageOpened selectorTimeoutWorld False \<and> setUserAgentResult selectorTimeoutWorld = None
      \<and> setViewportResult selectorTimeoutWorld = None \<and> gotoResult selectorTimeoutWorld = None
      \<and> Some ''.chapter-list'' = Some ''.chapter-list'' \<and> ''.chapter-list'' \<noteq> []
      \<and> waitForSelectorResult selectorTimeoutWorld
          = Some (TimeoutError ''Waiting for selector .chapter-list failed: 15000ms exceeded'')"
    by (simp add: selectorTimeoutWorld_def pageOpened_def)
  have c: "afterClose selectorTimeoutWorld (TimeoutError ''Waiting for selector .chapter-list failed: 15000ms exceeded'')
      = TimeoutError ''Waiting for selector .chapter-list failed: 15000ms exceeded''"
    by (simp add: afterClose_def selectorTimeoutWorld_def)
  from scrapeDynamic_selector_timeout_fatal
         [of selectorTimeoutWorld False "Some ''.chapter-list''" "''.chapter-list''"
             "TimeoutError ''Waiting for selector .chapter-list failed: 15000ms exceeded''"
             "''https://site.example/title/1''" "Some 5000"] h c
  show ?thesis by simp
qed

section \<open>Properties of the TTL caches\<close>































section \<open>Properties of the chapter lists\<close>

lemma collectChapters_eq:
  "collectChapters numberText dated els (chapters, seen) =
     (chapters @ map (toChapter numberText dated) (firstOccurrences elNumber seen (filter usableEl els)),
      seen \<union> elNumber ` set (filter usableEl els))"
proof (induction els arbitrary: chapters seen)
  case Nil
  show ?case by simp
next
  case (Cons el els)
  show ?case
  proof (cases "elChapterId el")
    case None
    then show ?thesis using Cons.IH by (simp add: usableEl_def)
  next
    case (Some ident)
    show ?thesis
    proof (cases "elChapterNum el")
      case None
      with Some show ?thesis using Cons.IH by (simp add: usableEl_def)
    next
      case num: (Some n)
      show ?thesis
      proof (cases "n = 0")
        case True
        with Some num show ?thesis using Cons.IH by (simp add: usableEl_def)
      next
        case False
        with Some num have u: "usableEl el" and en: "elNumber el = n"
          by (simp_all add: usableEl_def elNumber_def)
        show ?thesis
        proof (cases "n \<in> seen")
          case True
          with Some num False u en show ?thesis using Cons.IH
            by (auto simp: insert_absorb)
        next
          case nin: False
          with Some num False u en show ?thesis using Cons.IH
            by (simp add: toChapter_def orDefault_def)
        qed
      qed
    qed
  qed
qed

lemma firstOccurrences_keys:
  "set (map key (firstOccurrences key seen xs)) = key ` set xs - seen"
  by (induction xs arbitrary: seen) auto

lemma firstOccurrences_distinct:
  "distinct (map key (firstOccurrences key seen xs))"
proof (induction xs arbitrary: seen)
  case Nil
  show ?case by simp
next
  case (Cons x xs)
  have "key x \<notin> set (map key (firstOccurrences key (insert (key x) seen) xs))"
    unfolding firstOccurrences_keys by simp
  with Cons show ?case by simp
qed

lemma set_insertBy: "set (insertBy cmp x ys) = insert x (set ys)"
  by (induction ys) auto

lemma set_sortBy: "set (sortBy cmp xs) = set xs"
  by (induction xs) (simp_all add: sortBy_def set_insertBy)

lemma distinct_insertBy:
  "distinct (map f (insertBy cmp x ys)) \<longleftrightarrow> f x \<notin> f ` set ys \<and> distinct (map f ys)"
  by (induction ys) (auto simp: set_insertBy)

lemma distinct_sortBy: "distinct (map f (sortBy cmp xs)) \<longleftrightarrow> distinct (map f xs)"
  by (induction xs) (simp_all add: sortBy_def distinct_insertBy set_sortBy [unfolded sortBy_def])

lemma length_insertBy: "length (insertBy cmp x ys) = Suc (length ys)"
  by (induction ys) auto

lemma length_sortBy: "length (sortBy cmp xs) = length xs"
  by (induction xs) (simp_all add: sortBy_def length_insertBy)

lemma sorted_insertBy:
  "sorted_wrt (\<lambda>a b. f a \<ge> f b) ys \<Longrightarrow>
     sorted_wrt (\<lambda>a b. f a \<ge> f b) (insertBy (\<lambda>a b. f b - f a) x ys)"
  by (induction ys) (auto simp: set_insertBy)

lemma sorted_sortBy:
  "sorted_wrt (\<lambda>a b. (f a :: rat) \<ge> f b) (sortBy (\<lambda>a b. f b - f a) xs)"
  by (induction xs) (simp_all add: sortBy_def sorted_insertBy)

lemma toChapter_number: "chapterNumber (toChapter numberText dated el) = elNumber el"
  by (simp add: toChapter_def elNumber_def)

lemma mdCollect_eq:
  "mdCollect nowIso xs (chapters, seen) =
     (chapters @ map (toRef nowIso) (firstOccurrences mdNumber seen (filter numbered xs)),
      seen \<union> mdNumber ` set (filter numbered xs))"
proof (induction xs arbitrary: chapters seen)
  case Nil
  show ?case by simp
next
  case (Cons x xs)
  show ?case
  proof (cases "mdNumber x = []")
    case True
    then show ?thesis using Cons.IH by (simp add: numbered_def mdNumber_def Let_def)
  next
    case False
    show ?thesis
    proof (cases "mdNumber x \<in> seen")
      case True
      with False show ?thesis using Cons.IH
        by (auto simp: numbered_def mdNumber_def Let_def insert_absorb)
    next
      case nin: False
      with False show ?thesis using Cons.IH
        by (simp add: numbered_def mdNumber_def [symmetric] toRef_def Let_def)
    qed
  qed
qed

lemma strictly_descending:
  "sorted_wrt (\<lambda>a b. (f a :: rat) \<ge> f b) xs \<Longrightarrow> distinct (map f xs) \<Longrightarrow>
     sorted_wrt (\<lambda>a b. f a > f b) xs"
  by (induction xs) (auto simp: less_le image_iff)

lemma mgekoInfoChapters_collected:
  "mgekoInfoChapters numberText allChaptersPage mainPage =
     sortBy (\<lambda>a b. chapterNumber b - chapterNumber a)
       (map (toChapter numberText (allChaptersPage \<noteq> None))
          (firstOccurrences elNumber {}
             (filter usableEl (case allChaptersPage of Some els \<Rightarrow> els | None \<Rightarrow> mainPage))))"
  by (simp add: mgekoInfoChapters_def collectChapters_eq)

lemma map_number_toChapter:
  "map chapterNumber (map (toChapter numberText dated) els) = map elNumber els"
  by (simp add: toChapter_number)

text \<open>
  Claim C8, as amended. The chapter list of the Mgeko info operation is ordered by chapter
  number, strictly descending (newest first); its entries are those made from the first
  element of the page for each chapter number (elements without a reader link or a number, and
  number 0, are skipped), so there is exactly one entry per chapter number: an element that
  repeats a number already seen is dropped. The chapter list of the MangaDex info operation
  keeps the order of the API's response and likewise has exactly one entry per chapter number,
  the first in the response; the chapters without a number are skipped.
\<close>

theorem chapter_lists_one_entry_per_number:
  "sorted_wrt (\<lambda>a b. chapterNumber a > chapterNumber b)
      (mgekoInfoChapters numberText allChaptersPage mainPage)
   \<and> set (mgekoInfoChapters numberText allChaptersPage mainPage)
       = set (map (toChapter numberText (allChaptersPage \<noteq> None))
           (firstOccurrences elNumber {}
              (filter usableEl (case allChaptersPage of Some els \<Rightarrow> els | None \<Rightarrow> mainPage))))
   \<and> length (mgekoInfoChapters numberText allChaptersPage mainPage)
       = card (elNumber ` set (filter usableEl
                 (case allChaptersPage of Some els \<Rightarrow> els | None \<Rightarrow> mainPage)))
   \<and> mangadexInfoChapters nowIso fetchedChapters
       = map (toRef nowIso) (firstOccurrences mdNumber {} (filter numbered fetchedChapters))
   \<and> distinct (map mdNumber (firstOccurrences mdNumber {} (filter numbered fetchedChapters)))
   \<and> length (mangadexInfoChapters nowIso fetchedChapters)
       = card (mdNumber ` set (filter numbered fetchedChapters))"
proof -
  let ?els = "filter usableEl (case allChaptersPage of Some els \<Rightarrow> els | None \<Rightarrow> mainPage)"
  let ?kept = "map (toChapter numberText (allChaptersPage \<noteq> None)) (firstOccurrences elNumber {} ?els)"
  have d: "distinct (map chapterNumber ?kept)"
    unfolding map_number_toChapter by (rule firstOccurrences_distinct)
  have out: "mgekoInfoChapters numberText allChaptersPage mainPage
      = sortBy (\<lambda>a b. chapterNumber b - chapterNumber a) ?kept"
    by (rule mgekoInfoChapters_collected)
  have s: "sorted_wrt (\<lambda>a b. chapterNumber a > chapterNumber b)
      (mgekoInfoChapters numberText allChaptersPage mainPage)"
    unfolding out using d by (intro strictly_descending sorted_sortBy) (simp add: distinct_sortBy)
  have m: "set (mgekoInfoChapters numberText allChaptersPage mainPage) = set ?kept"
    unfolding out by (rule set_sortBy)
  have "length ?kept = length (map elNumber (firstOccurrences elNumber {} ?els))" by simp
  also have "\<dots> = card (set (map elNumber (firstOccurrences elNumber {} ?els)))"
    using firstOccurrences_distinct [of elNumber "{}" ?els] by (simp only: distinct_card)
  also have "\<dots> = card (elNumber ` set ?els)"
    by (simp only: firstOccurrences_keys) simp
  finally have l: "length (mgekoInfoChapters numberText allChaptersPage mainPage)
       = card (elNumber ` set ?els)"
    unfolding out by (simp add: length_sortBy)
  have md: "mangadexInfoChapters nowIso fetchedChapters
       = map (toRef nowIso) (firstOccurrences mdNumber {} (filter numbered fetchedChapters))"
    by (simp add: mangadexInfoChapters_def mdCollect_eq)
  have "length (mangadexInfoChapters nowIso fetchedChapters)
      = length (map mdNumber (firstOccurrences mdNumber {} (filter numbered fetchedChapters)))"
    unfolding md by simp
  also have "\<dots> = card (set (map mdNumber (firstOccurrences mdNumber {} (filter numbered fetchedChapters))))"
    using firstOccurrences_distinct [of mdNumber "{}" "filter numbered fetchedChapters"]
    by (simp only: distinct_card)
  also have "\<dots> = card (mdNumber ` set (filter numbered fetchedChapters))"
    by (simp only: firstOccurrences_keys) simp
  finally have ml: "length (mangadexInfoChapters nowIso fetchedChapters)
       = card (mdNumber ` set (filter numbered fetchedChapters))" .
  from s m l md ml firstOccurrences_distinct [of mdNumber "{}" "filter numbered fetchedChapters"]
  show ?thesis by blast
qed

text \<open>
  Claim C8 as it was stated fails: of three Mgeko elements, two of them with chapter number 5,
  two entries are produced, and of two MangaDex chapters numbered 5 from different scan groups
  one entry is produced; the later duplicate is not kept as an entry of its own.
\<close>

theorem chapter_duplicates_counterexample:
  "length exampleEls = 3
   \<and> mgekoInfoChapters exampleNumberText (Some exampleEls) []
      = [\<lparr>chapterId = ''solo-chapter-6'', chapterTitle = ''Chapter 6'', chapterNumber = 6,
           releaseDate = Some ''1 day''\<rparr>,
         \<lparr>chapterId = ''solo-chapter-5'', chapterTitle = ''Chapter 5'', chapterNumber = 5,
           releaseDate = Some ''3 days''\<rparr>]
   \<and> length exampleMdChapters = 2
   \<and> mangadexInfoChapters ''2025-02-01'' exampleMdChapters
      = [\<lparr>refId = ''group-a-5'', refTitle = ''Chapter 5'', refReleaseDate = ''2025-01-02''\<rparr>]"
  by (simp add: exampleEls_def exampleMdChapters_def exampleNumberText_def mgekoInfoChapters_def
      mangadexInfoChapters_def sortBy_def orDefault_def Let_def)

section \<open>Properties of the playlist rewriting\<close>

lemmas playlist_defs =
  rewritePlaylist_def replaceEntries_def proxied_def lastIndexOf_def encodeURIComponent_def
  encodeUnit_def uriUnreserved_def percentByte_def hexDigit_def orDefault_def

lemma splitLines_single: "CHR 0x0A \<notin> set s \<Longrightarrow> splitLines s = [s]"
  by (induction s) auto

lemma includesStr_suffix: "\<not> includesStr (c # cs) pat \<Longrightarrow> \<not> includesStr cs pat"
  by simp

lemma rewritePiece_unchanged:
  "\<not> includesStr s ext \<Longrightarrow> rewritePiece ext f b s = s"
  by (induction s arbitrary: b) auto

text \<open>
  A playlist of one line that is not a comment, names a \<^verbatim>\<open>.ts\<close> segment and contains no
  \<^verbatim>\<open>.m3u8\<close> is rewritten once, to the proxied URL of the line, resolved against the
  directory of the fetch URL when it is relative.
\<close>

lemma rewritePlaylist_segment_line:
  assumes "CHR 0x0A \<notin> set (c # cs)" and "c \<noteq> CHR ''#''"
    and "includesStr cs ''.ts''" and "\<not> includesStr (c # cs) ''.m3u8''"
  shows "rewritePlaylist url referer (c # cs)
     = proxied (take (nat (lastIndexOf url CHR ''/'' + 1)) url) referer (c # cs)"
proof -
  have one: "splitLines (c # cs) = [c # cs]"
    using assms(1) by (rule splitLines_single)
  have first: "replaceEntries ''.m3u8'' (proxied (take (nat (lastIndexOf url CHR ''/'' + 1)) url) referer) (c # cs)
      = c # cs"
    unfolding replaceEntries_def one
    by (simp only: list.map joinLines.simps rewritePiece_unchanged [OF assms(4)])
  have second: "replaceEntries ''.ts'' (proxied (take (nat (lastIndexOf url CHR ''/'' + 1)) url) referer) (c # cs)
      = proxied (take (nat (lastIndexOf url CHR ''/'' + 1)) url) referer (c # cs)"
    unfolding replaceEntries_def one using assms(2,3) by simp
  show ?thesis
    by (simp only: rewritePlaylist_def Let_def first second)
qed

text \<open>
  Claim C9. Every entry of the playlist that names a \<^verbatim>\<open>.ts\<close> or \<^verbatim>\<open>.m3u8\<close> file is to be
  replaced by the proxy's stream URL of the entry, resolved against the directory of the
  fetch URL when it is relative, with the referer attached. The code does so on the example
  of the specification (first equation). It does not on every entry: the second replacement
  runs over the text the first one produced, so an \<^verbatim>\<open>.m3u8\<close> entry whose proxied URL
  contains \<^verbatim>\<open>.ts\<close> (here in the host name of the fetch URL) is rewritten a second time. The
  line that results (third equation) is not the proxied URL of the resolved entry (second
  equation) but the proxied URL of that proxied URL. The last three equations are the replies
  of the route \<^verbatim>\<open>/stream\<close> on the same two requests, whose URLs contain \<^verbatim>\<open>.m3u8\<close> and
  whose referer, where there is one, is a URL, and on a request for a segment, which the
  route relays as it is.
\<close>

theorem playlist_rewritten_twice:
  "rewritePlaylist ''https://cdn.example/show/index.m3u8?token=abc'' (Some ''https://hianime.to/'')
      ''#EXTM3U\<newline>#EXTINF:10,\<newline>segment001.ts\<newline>''
    = ''#EXTM3U\<newline>#EXTINF:10,\<newline>http://localhost:3000/proxy/stream?url=https%3A%2F%2Fcdn.example%2Fshow%2Fsegment001.ts&referer=https%3A%2F%2Fhianime.to%2F\<newline>''
   \<and> proxied ''https://cdn.tsunami.example/show/'' None ''low/index.m3u8''
    = ''http://localhost:3000/proxy/stream?url=https%3A%2F%2Fcdn.tsunami.example%2Fshow%2Flow%2Findex.m3u8''
   \<and> rewritePlaylist ''https://cdn.tsunami.example/show/master.m3u8'' None ''low/index.m3u8''
    = ''http://localhost:3000/proxy/stream?url=http%3A%2F%2Flocalhost%3A3000%2Fproxy%2Fstream%3Furl%3Dhttps%253A%252F%252Fcdn.tsunami.example%252Fshow%252Flow%252Findex.m3u8''
   \<and> streamHandler exampleParsesAsUrl exampleUpstream
        (Some ''https://cdn.example/show/index.m3u8?token=abc'') (Some ''https://hianime.to/'')
    = SentPlaylist ''#EXTM3U\<newline>#EXTINF:10,\<newline>http://localhost:3000/proxy/stream?url=https%3A%2F%2Fcdn.example%2Fshow%2Fsegment001.ts&referer=https%3A%2F%2Fhianime.to%2F\<newline>''
   \<and> streamHandler exampleParsesAsUrl exampleUpstream
        (Some ''https://cdn.tsunami.example/show/master.m3u8'') None
    = SentPlaylist ''http://localhost:3000/proxy/stream?url=http%3A%2F%2Flocalhost%3A3000%2Fproxy%2Fstream%3Furl%3Dhttps%253A%252F%252Fcdn.tsunami.example%252Fshow%252Flow%252Findex.m3u8''
   \<and> streamHandler exampleParsesAsUrl exampleUpstream
        (Some ''https://cdn.example/show/segment001.ts'') None
    = SentStream 206 ''segment-bytes''"
  by (simp add: playlist_defs streamHandler_def exampleParsesAsUrl_def exampleUpstream_def)

end
